theory Spec2Isabelle
  imports Complex_Main "HOL-Library.Char_ord" "HOL-Library.List_Lexorder"
begin

section \<open>JavaScript values used by the gateway\<close>

text \<open>
  A JavaScript number is modelled as an exact real or \<open>NaN\<close>. Rounding, the two
  infinities and the negative zero are not modelled: the trust scores, thresholds, counters
  and unix timestamps handled by the gateway are small integers or short fractions.
\<close>

datatype jsnum = NaN | Num real

text \<open>The relational operators of JavaScript: any comparison with \<open>NaN\<close> is false.\<close>

fun js_lt :: "jsnum \<Rightarrow> jsnum \<Rightarrow> bool" where
  "js_lt (Num a) (Num b) = (a < b)"
| "js_lt _ _ = False"

fun js_gt :: "jsnum \<Rightarrow> jsnum \<Rightarrow> bool" where
  "js_gt (Num a) (Num b) = (a > b)"
| "js_gt _ _ = False"

fun js_ge :: "jsnum \<Rightarrow> jsnum \<Rightarrow> bool" where
  "js_ge (Num a) (Num b) = (a \<ge> b)"
| "js_ge _ _ = False"

text \<open>\<open>Math.floor(x)\<close> and \<open>Math.floor(x / 1000)\<close>.\<close>

fun js_floor :: "jsnum \<Rightarrow> jsnum" where
  "js_floor (Num a) = Num (of_int \<lfloor>a\<rfloor>)"
| "js_floor NaN = NaN"

fun js_div1000 :: "jsnum \<Rightarrow> jsnum" where
  "js_div1000 (Num a) = Num (a / 1000)"
| "js_div1000 NaN = NaN"

text \<open>
  JSON data as it arrives in a request body or sits in a queue item: primitives, arrays,
  and objects. An object is the list of its own properties in insertion order
  (the order \<open>Object.keys\<close> reports for non-index keys); no key occurs twice in an object.
\<close>

datatype prim = PNull | PBool bool | PNum jsnum | PStr string

datatype json = Prim prim | JArr "json list" | JObj "(string \<times> json) list"

text \<open>Thrown values: the error kind with its \<open>message\<close>.\<close>

datatype error = TypeError string | ReferenceError string | Error string

fun err_message :: "error \<Rightarrow> string" where
  "err_message (TypeError m) = m"
| "err_message (ReferenceError m) = m"
| "err_message (Error m) = m"

text \<open>
  Built-in conversions whose full definition lies in the language, not in the repository.
  \<open>JSON_stringify\<close> is \<open>JSON.stringify\<close>, \<open>ToNumber_other\<close> is \<open>Number(v)\<close>
  on strings, arrays and objects, \<open>ToString\<close> is \<open>String(v)\<close>. All three are taken to
  return a value: on parsed JSON the two conversions throw only for an object whose own
  \<open>toString\<close> and \<open>valueOf\<close> properties hide the inherited methods.
\<close>

record builtins =
  JSON_stringify :: "json \<Rightarrow> string"
  ToNumber_other :: "json \<Rightarrow> jsnum"
  ToString :: "json \<Rightarrow> string"

text \<open>\<open>Number(v)\<close>: numbers are kept, \<open>null\<close> is 0, booleans are 0 or 1.\<close>

fun js_Number :: "builtins \<Rightarrow> json \<Rightarrow> jsnum" where
  "js_Number bi (Prim (PNum n)) = n"
| "js_Number bi (Prim PNull) = Num 0"
| "js_Number bi (Prim (PBool b)) = Num (if b then 1 else 0)"
| "js_Number bi v = ToNumber_other bi v"

text \<open>Truthiness, as \<open>||\<close>, \<open>&&\<close> and \<open>if\<close> test it.\<close>

fun truthy :: "json \<Rightarrow> bool" where
  "truthy (Prim PNull) = False"
| "truthy (Prim (PBool b)) = b"
| "truthy (Prim (PNum NaN)) = False"
| "truthy (Prim (PNum (Num r))) = (r \<noteq> 0)"
| "truthy (Prim (PStr s)) = (s \<noteq> [])"
| "truthy (JArr _) = True"
| "truthy (JObj _) = True"

text \<open>A property read \<open>o.k\<close> on a non-null value; \<open>None\<close> is \<open>undefined\<close>.\<close>

fun field :: "json \<Rightarrow> string \<Rightarrow> json option" where
  "field (JObj kvs) k = map_of kvs k"
| "field _ k = None"

text \<open>\<open>a || b\<close> on a possibly undefined left operand.\<close>

definition or_else :: "json option \<Rightarrow> json \<Rightarrow> json" where
  "or_else a b = (case a of Some v \<Rightarrow> if truthy v then v else b | None \<Rightarrow> b)"

text \<open>\<open>a ?? b\<close>: the right operand replaces \<open>undefined\<close> and \<open>null\<close> only.\<close>

definition nullish_else :: "json option \<Rightarrow> json \<Rightarrow> json" where
  "nullish_else a b = (case a of Some (Prim PNull) \<Rightarrow> b | Some v \<Rightarrow> v | None \<Rightarrow> b)"

section \<open>Canonical hasher (blockchain.js)\<close>

text \<open>\<open>parts.join(',')\<close>.\<close>

fun join :: "string \<Rightarrow> string list \<Rightarrow> string" where
  "join sep [] = []"
| "join sep [x] = x"
| "join sep (x # y # ys) = x @ sep @ join sep (y # ys)"

lemma map_of_size_less:
  "map_of kvs k = Some v \<Longrightarrow> size v < Suc (size_list (size_prod (\<lambda>_. 0) size) kvs)"
  by (induction kvs) (auto split: if_splits)

text \<open>
  \<open>stableStringify\<close>: primitives through \<open>JSON.stringify\<close>, arrays element by element,
  objects with \<open>Object.keys(obj).sort()\<close> and one \<open>"key":value\<close> part per sorted key,
  the value read back as \<open>obj[k]\<close>. The default \<open>sort\<close> orders strings by code unit,
  which is the lexicographic order on character lists.
\<close>

function stableStringify :: "builtins \<Rightarrow> json \<Rightarrow> string" where
  "stableStringify bi (Prim p) = JSON_stringify bi (Prim p)"
| "stableStringify bi (JArr xs) = ''['' @ join '','' (map (stableStringify bi) xs) @ '']''"
| "stableStringify bi (JObj kvs) =
     ''{'' @ join '',''
       (map (\<lambda>k. JSON_stringify bi (Prim (PStr k)) @ '':'' @
                 (case map_of kvs k of Some v \<Rightarrow> stableStringify bi v | None \<Rightarrow> ''undefined''))
            (sort (map fst kvs)))
     @ ''}''"
  by pat_completeness auto
termination
proof (relation "measure (\<lambda>(bi, v). size v)", goal_cases)
  case 1
  show ?case by simp
next
  case (2 bi xs x)
  then show ?case by (induction xs) auto
next
  case (3 bi kvs k v)
  then show ?case using map_of_size_less [of kvs k v] by simp
qed

text \<open>
  The installed \<open>ethers\<close> package: the composition \<open>keccak256(toUtf8Bytes(s))\<close> as ethers
  v6 exports it, as \<open>ethers.utils\<close> of v5 exports it, and as \<open>require('ethers/lib/utils')\<close>
  gives it; each is \<open>None\<close> when the package does not have it.
\<close>

record ethers_pkg =
  keccak_v6 :: "(string \<Rightarrow> string) option"
  keccak_v5 :: "(string \<Rightarrow> string) option"
  keccak_lib_utils :: "(string \<Rightarrow> string) option"

definition keccakHash :: "builtins \<Rightarrow> ethers_pkg \<Rightarrow> json \<Rightarrow> error + string" where
  "keccakHash bi eth obj =
     (let json = stableStringify bi obj in
      case keccak_v6 eth of Some h \<Rightarrow> Inr (h json)
      | None \<Rightarrow>
        (case keccak_v5 eth of Some h \<Rightarrow> Inr (h json)
         | None \<Rightarrow>
           (case keccak_lib_utils eth of Some h \<Rightarrow> Inr (h json)
            | None \<Rightarrow> Inl (Error ''keccak256/toUtf8Bytes not available in installed ethers package''))))"

text \<open>
  Two payloads that differ only in the insertion order of the keys of their objects, at any
  depth: same primitives, arrays related element by element, objects with the same keys
  (each once) and related values under every key.
\<close>

inductive same_up_to_key_order :: "json \<Rightarrow> json \<Rightarrow> bool" where
  prim: "same_up_to_key_order (Prim p) (Prim p)"
| arr: "list_all2 same_up_to_key_order xs ys \<Longrightarrow> same_up_to_key_order (JArr xs) (JArr ys)"
| obj: "distinct (map fst kvs) \<Longrightarrow> distinct (map fst kvs') \<Longrightarrow>
        set (map fst kvs) = set (map fst kvs') \<Longrightarrow>
        (\<forall>k v v'. map_of kvs k = Some v \<longrightarrow> map_of kvs' k = Some v' \<longrightarrow> same_up_to_key_order v v') \<Longrightarrow>
        same_up_to_key_order (JObj kvs) (JObj kvs')"

section \<open>Ledger adapter (blockchain.js)\<close>

text \<open>
  What the ledger client hands back: a receipt, and a transaction with the outcome of its
  \<open>wait()\<close> (a thrown error, or a receipt that can be \<open>null\<close>).
\<close>

record receipt =
  receipt_transactionHash :: "string option"
  receipt_hash :: "string option"

record tx =
  tx_hash :: "string option"
  tx_transactionHash :: "string option"
  tx_wait :: "error + receipt option"

record ledger_args =
  la_groupId :: json
  la_oldTS :: jsnum
  la_newTS :: jsnum
  la_reason :: json
  la_dataHash :: string
  la_ts :: jsnum

text \<open>
  The module state of blockchain.js: \<open>contract\<close> (its \<open>logTrustEvent\<close> method) and
  \<open>wallet\<close> are \<open>None\<close> when the module left them \<open>null\<close>; the provider's
  \<open>waitForTransaction\<close>; the \<open>ethers\<close> package.
\<close>

record blockchain =
  contract :: "(ledger_args \<Rightarrow> error + tx) option"
  wallet :: "string option"
  provider_waitForTransaction :: "string option \<Rightarrow> error + receipt option"
  ethers :: ethers_pkg

datatype ledger_call = LogTrustEvent ledger_args | TxWait | WaitForTransaction "string option"

record pal_result =
  res_txHash :: "string option"
  res_hash :: "string option"
  res_success :: bool
  res_error :: "string option"
  res_receipt :: "receipt option"

text \<open>\<open>a || b\<close> on strings that may be \<open>undefined\<close> or \<open>null\<close>: the empty string is falsy.\<close>

definition or_str :: "string option \<Rightarrow> string option \<Rightarrow> string option" where
  "or_str a b = (case a of Some s \<Rightarrow> if s = [] then b else Some s | None \<Rightarrow> b)"

text \<open>\<open>(err && err.message) || String(err)\<close>; \<open>String(err)\<close> of an error with an empty
  message is the error's name.\<close>

fun err_name :: "error \<Rightarrow> string" where
  "err_name (TypeError m) = ''TypeError''"
| "err_name (ReferenceError m) = ''ReferenceError''"
| "err_name (Error m) = ''Error''"

definition err_text :: "error \<Rightarrow> string" where
  "err_text e = (if err_message e = [] then err_name e else err_message e)"

text \<open>
  The \<open>try\<close> block of \<open>processAndLog\<close>, with the ledger calls it made. \<open>now\<close> is
  \<open>Date.now()\<close>. Reading a property of \<open>null\<close> throws; every other JSON value can be
  read.
\<close>

definition processAndLog_try ::
  "builtins \<Rightarrow> blockchain \<Rightarrow> real \<Rightarrow> json \<Rightarrow> (error + pal_result) \<times> ledger_call list" where
  "processAndLog_try bi bc now evt =
     (if evt = Prim PNull then (Inl (TypeError ''Cannot read properties of null''), [])
      else
        let groupId = (case field evt ''groupId'' of
                         Some (Prim (PStr s)) \<Rightarrow> Prim (PStr s)
                       | _ \<Rightarrow> or_else (field evt ''deviceId'') (Prim (PStr ''unknown-group'')));
            oldTS = js_Number bi (case field evt ''oldTS'' of
                                    Some v \<Rightarrow> v
                                  | None \<Rightarrow> nullish_else (field evt ''oldTrustA'') (Prim (PNum (Num 0))));
            newTS = js_Number bi (case field evt ''newTS'' of
                                    Some v \<Rightarrow> v
                                  | None \<Rightarrow> nullish_else (field evt ''newTrustA'') (Prim (PNum (Num 0))));
            reason = (case field evt ''reason'' of
                        Some (Prim (PStr s)) \<Rightarrow> Prim (PStr s)
                      | _ \<Rightarrow> or_else (field evt ''reason'') (Prim (PStr ''no-reason'')));
            tsRaw = (case field evt ''ts'' of
                       Some v \<Rightarrow> v
                     | None \<Rightarrow> (case field evt ''timestamp'' of
                                  Some v \<Rightarrow> v
                                | None \<Rightarrow> Prim (PNum (Num now))));
            ts = (if js_gt (js_Number bi tsRaw) (Num 1000000000000)
                  then js_floor (js_div1000 (js_Number bi tsRaw))
                  else js_floor (js_Number bi tsRaw))
        in
        case keccakHash bi (ethers bc) evt of
          Inl e \<Rightarrow> (Inl e, [])
        | Inr dataHash \<Rightarrow>
            (case contract bc of
               None \<Rightarrow> (Inr \<lparr>res_txHash = None, res_hash = Some dataHash, res_success = False,
                              res_error = Some ''on-chain disabled'', res_receipt = None\<rparr>, [])
             | Some logTrustEvent \<Rightarrow>
                 if wallet bc = None
                 then (Inr \<lparr>res_txHash = None, res_hash = Some dataHash, res_success = False,
                            res_error = Some ''on-chain disabled'', res_receipt = None\<rparr>, [])
                 else
                   let args = \<lparr>la_groupId = groupId, la_oldTS = oldTS, la_newTS = newTS,
                               la_reason = reason, la_dataHash = dataHash, la_ts = ts\<rparr>
                   in
                   (case logTrustEvent args of
                     Inl e \<Rightarrow> (Inl e, [LogTrustEvent args])
                   | Inr t \<Rightarrow>
                       let txHash = or_str (tx_hash t) (tx_transactionHash t);
                           waited = (case tx_wait t of
                                       Inr r \<Rightarrow> (r, [TxWait])
                                     | Inl waitErr \<Rightarrow>
                                         (case provider_waitForTransaction bc txHash of
                                            Inr r \<Rightarrow> (r, [TxWait, WaitForTransaction txHash])
                                          | Inl pwErr \<Rightarrow> (None, [TxWait, WaitForTransaction txHash])));
                           receipt = fst waited;
                           confirmedHash =
                             or_str (case receipt of
                                       Some r \<Rightarrow> or_str (receipt_transactionHash r) (receipt_hash r)
                                     | None \<Rightarrow> None)
                                    txHash
                       in (Inr \<lparr>res_txHash = confirmedHash, res_hash = Some dataHash,
                                 res_success = True, res_error = None, res_receipt = receipt\<rparr>,
                           LogTrustEvent args # snd waited))))"

text \<open>The default parameter \<open>evt = {}\<close>: \<open>None\<close> is a call without an argument.\<close>

definition default_evt :: "json option \<Rightarrow> json" where
  "default_evt evt_arg = (case evt_arg of None \<Rightarrow> JObj [] | Some e \<Rightarrow> e)"

text \<open>
  \<open>processAndLog\<close>: the \<open>catch\<close> block recomputes the hash where it can and returns the
  failure as a value.
\<close>

definition processAndLog ::
  "builtins \<Rightarrow> blockchain \<Rightarrow> real \<Rightarrow> json option \<Rightarrow> (error + pal_result) \<times> ledger_call list" where
  "processAndLog bi bc now evt_arg =
     (let evt = default_evt evt_arg in
      case processAndLog_try bi bc now evt of
        (Inr r, calls) \<Rightarrow> (Inr r, calls)
      | (Inl err, calls) \<Rightarrow>
          (let maybeHash = (case keccakHash bi (ethers bc) evt of Inr h \<Rightarrow> Some h | Inl e \<Rightarrow> None)
           in (Inr \<lparr>res_txHash = None, res_hash = maybeHash, res_success = False,
                     res_error = Some (err_text err), res_receipt = None\<rparr>, calls)))"

section \<open>Trend analysis engine (systemValidation.js)\<close>

definition WINDOW_EVENTS :: nat where "WINDOW_EVENTS = 20"
definition DROP_DELTA :: real where "DROP_DELTA = 10"
definition INSTABILITY_DELTA :: real where "INSTABILITY_DELTA = 8"
definition DROP_COUNT_THRESHOLD :: nat where "DROP_COUNT_THRESHOLD = 3"
definition INSTABILITY_FRACTION :: real where "INSTABILITY_FRACTION = 0.4"

text \<open>
  A point of the series, as \<open>readLocalEventsForGroup\<close> and \<open>fetchOnChainTrustEvents\<close>
  build it. The \<open>groupId\<close> of a local point is a string, \<open>undefined\<close> or \<open>null\<close>. The
  \<open>groupId\<close> of a decoded log is \<open>decoded.args.groupId\<close>: the event declares it
  \<open>string indexed\<close>, so the log carries the hash of the group name as a topic and the
  decoder hands back an \<open>Indexed\<close> object that holds this hash, not the name
  (\<open>GIndexed\<close> with the hash). A log that fails to parse gets the queried group name
  and \<open>null\<close> (\<open>None\<close>) for \<open>oldTS\<close>, \<open>newTS\<close> and \<open>ts\<close>. The on-chain extras
  (\<open>dataHash\<close>, \<open>blockNumber\<close>, \<open>txHash\<close>) are never read by the analysis and are left
  out.
\<close>

datatype group_id = GUndefined | GNull | GStr string | GIndexed string

datatype source = Local | Onchain | Onchain_parse_error

record point =
  p_groupId :: group_id
  p_oldTS :: "jsnum option"
  p_newTS :: "jsnum option"
  p_reason :: "string option"
  p_ts :: "jsnum option"
  p_source :: source

text \<open>\<open>item.ts || 0\<close>.\<close>

fun ts_or_0 :: "jsnum option \<Rightarrow> real" where
  "ts_or_0 (Some (Num r)) = r"
| "ts_or_0 _ = 0"

text \<open>
  In the key the group is the text of \<open>groupId || ''\<close>. An \<open>Indexed\<close> object is truthy and
  has no \<open>toString\<close> of its own, so its text is that of any plain object.
\<close>

fun groupId_or_empty :: "group_id \<Rightarrow> string" where
  "groupId_or_empty (GStr s) = s"
| "groupId_or_empty (GIndexed h) = ''[object Object]''"
| "groupId_or_empty _ = []"

text \<open>
  The key kept in \<open>seen\<close> is the template string of \<open>groupId || ''\<close>, a colon and
  \<open>ts || 0\<close>. The text of a number holds no colon, so the last colon splits the string in one
  way only and two keys are equal exactly when both components are: the key is the pair.
\<close>

definition seen_key :: "point \<Rightarrow> string \<times> real" where
  "seen_key item = (groupId_or_empty (p_groupId item), ts_or_0 (p_ts item))"

text \<open>Strict equality \<open>===\<close> on timestamps: \<open>null\<close> equals \<open>null\<close>, \<open>NaN\<close> equals nothing.\<close>

fun strict_eq_ts :: "jsnum option \<Rightarrow> jsnum option \<Rightarrow> bool" where
  "strict_eq_ts None None = True"
| "strict_eq_ts (Some (Num a)) (Some (Num b)) = (a = b)"
| "strict_eq_ts _ _ = False"

text \<open>
  Strict equality \<open>===\<close> on group values: strings by content, \<open>undefined\<close> and \<open>null\<close>
  each to itself. An object is equal to itself only, and every decoded log has an
  \<open>Indexed\<close> object of its own, so the objects of two points are never equal.
\<close>

fun strict_eq_group :: "group_id \<Rightarrow> group_id \<Rightarrow> bool" where
  "strict_eq_group (GStr a) (GStr b) = (a = b)"
| "strict_eq_group GUndefined GUndefined = True"
| "strict_eq_group GNull GNull = True"
| "strict_eq_group _ _ = False"

text \<open>The test of \<open>findIndex\<close>: \<open>d.groupId === item.groupId && d.ts === item.ts\<close>.\<close>

definition same_group_ts :: "point \<Rightarrow> point \<Rightarrow> bool" where
  "same_group_ts d item =
     (strict_eq_group (p_groupId d) (p_groupId item) \<and> strict_eq_ts (p_ts d) (p_ts item))"

text \<open>\<open>Array.prototype.findIndex\<close>; \<open>None\<close> is the result \<open>-1\<close>.\<close>

fun findIndex :: "('a \<Rightarrow> bool) \<Rightarrow> 'a list \<Rightarrow> nat option" where
  "findIndex P [] = None"
| "findIndex P (x # xs) = (if P x then Some 0 else map_option Suc (findIndex P xs))"

text \<open>One round of the dedup loop on the pair of \<open>deduped\<close> and \<open>seen\<close>.\<close>

definition dedupe_step :: "point list \<times> (string \<times> real) set \<Rightarrow> point \<Rightarrow> point list \<times> (string \<times> real) set" where
  "dedupe_step st item =
     (let deduped = fst st; seen = snd st in
      if seen_key item \<notin> seen then (deduped @ [item], insert (seen_key item) seen)
      else if p_source item = Local then
        (case findIndex (\<lambda>d. same_group_ts d item) deduped of
           Some idx \<Rightarrow> (deduped[idx := item], seen)
         | None \<Rightarrow> (deduped, seen))
      else (deduped, seen))"

definition dedupe :: "point list \<Rightarrow> point list" where
  "dedupe merged = fst (foldl dedupe_step ([], {}) merged)"

text \<open>
  The invariant of the dedup loop, over the items handled so far: \<open>seen\<close> holds the keys
  of \<open>deduped\<close>, these keys are pairwise different, \<open>deduped\<close> holds handled items only,
  the key of every handled item is in \<open>seen\<close>, and a point of \<open>deduped\<close> that passes
  the test of \<open>findIndex\<close> against a handled local item is local.
\<close>

definition dedupe_inv :: "point list \<Rightarrow> point list \<times> (string \<times> real) set \<Rightarrow> bool" where
  "dedupe_inv handled st \<longleftrightarrow>
     snd st = seen_key ` set (fst st) \<and> distinct (map seen_key (fst st)) \<and>
     set (fst st) \<subseteq> set handled \<and> seen_key ` set handled \<subseteq> snd st \<and>
     (\<forall>d \<in> set (fst st). \<forall>l \<in> set handled. p_source l = Local \<longrightarrow> same_group_ts d l \<longrightarrow> p_source d = Local)"

text \<open>
  \<open>buildTrustSeries\<close>. \<open>local\<close> is what \<open>readLocalEventsForGroup\<close> returned; \<open>fetched\<close>
  is \<open>None\<close> when provider or contract address is missing, else the outcome of
  \<open>fetchOnChainTrustEvents\<close> (a thrown error falls back to no on-chain points). The sort
  is stable and compares \<open>ts || 0\<close>.
\<close>

definition buildTrustSeries :: "point list \<Rightarrow> (error + point list) option \<Rightarrow> point list" where
  "buildTrustSeries local fetched =
     (let onchain = (case fetched of Some (Inr ps) \<Rightarrow> ps | _ \<Rightarrow> []);
          merged = sort_key (\<lambda>p. ts_or_0 (p_ts p)) (onchain @ local);
          deduped = dedupe merged
      in if length deduped \<le> WINDOW_EVENTS then deduped
         else drop (length deduped - WINDOW_EVENTS) deduped)"

text \<open>The result of \<open>analyzeSeries\<close>: not ok with a reason, or the four statistics.\<close>

record stats =
  drops :: nat
  instabilityFrac :: real
  slope :: real
  samples :: nat

datatype analysis = NotOk string | Ok stats

text \<open>
  The value of a point: \<open>Number(newTS)\<close> unless \<open>newTS\<close> is \<open>null\<close>, then
  \<open>Number(oldTS)\<close>, and \<open>Number(null)\<close> is 0.
\<close>

definition point_value :: "point \<Rightarrow> jsnum" where
  "point_value p = (case p_newTS p of Some n \<Rightarrow> n
                    | None \<Rightarrow> (case p_oldTS p of Some n \<Rightarrow> n | None \<Rightarrow> Num 0))"

text \<open>
  The loop over \<open>i = 1 .. length - 1\<close>, on the accumulators \<open>drops\<close> (here \<open>dropCount\<close>),
  \<open>instabilityCount\<close> and \<open>points\<close>; the list argument starts at \<open>series[i-1]\<close>.
\<close>

fun analyze_loop :: "nat \<Rightarrow> point list \<Rightarrow> nat \<times> nat \<times> (real \<times> real) list \<Rightarrow> nat \<times> nat \<times> (real \<times> real) list" where
  "analyze_loop i (a # b # rest) (dropCount, instabilityCount, points) =
     analyze_loop (Suc i) (b # rest)
       (case (point_value a, point_value b) of
          (Num prev, Num cur) \<Rightarrow>
            (let delta = cur - prev in
             ((if delta \<le> - DROP_DELTA then dropCount + 1 else dropCount),
              (if \<bar>delta\<bar> \<ge> INSTABILITY_DELTA then instabilityCount + 1 else instabilityCount),
              points @ [(real i, cur)]))
        | _ \<Rightarrow> (dropCount, instabilityCount, points))"
| "analyze_loop i _ acc = acc"

text \<open>The least-squares slope over \<open>points\<close>.\<close>

definition ls_slope :: "(real \<times> real) list \<Rightarrow> real" where
  "ls_slope points =
     (if length points \<ge> 2 then
        (let sumX = sum_list (map fst points);
             sumY = sum_list (map snd points);
             sumXY = sum_list (map (\<lambda>p. fst p * snd p) points);
             sumXX = sum_list (map (\<lambda>p. fst p * fst p) points);
             n = real (length points);
             denom = n * sumXX - sumX * sumX
         in if denom \<noteq> 0 then (n * sumXY - sumX * sumY) / denom else 0)
      else 0)"

definition analyzeSeries :: "point list \<Rightarrow> analysis" where
  "analyzeSeries series =
     (if length series < 2 then NotOk ''insufficient_samples''
      else
        (case analyze_loop 1 series (0, 0, []) of
           (dropCount, instabilityCount, points) \<Rightarrow>
             (let sampleCount = max 1 (length points) in
              Ok \<lparr>drops = dropCount,
                  instabilityFrac = real instabilityCount / real sampleCount,
                  slope = ls_slope points,
                  samples = length series\<rparr>)))"

text \<open>
  \<open>systemValidate\<close> reads \<open>TRUST_THRESHOLD\<close>. systemValidation.js neither declares nor
  imports that name, so the reference is looked up on the global object and throws a
  \<open>ReferenceError\<close> when no such property exists.
\<close>

definition TRUST_THRESHOLD :: "(string \<rightharpoonup> jsnum) \<Rightarrow> error + jsnum" where
  "TRUST_THRESHOLD globalThis =
     (case globalThis ''TRUST_THRESHOLD'' of
        Some v \<Rightarrow> Inr v
      | None \<Rightarrow> Inl (ReferenceError ''TRUST_THRESHOLD is not defined''))"

text \<open>\<open>Math.max(10, t - 5)\<close>.\<close>

fun max10_minus5 :: "jsnum \<Rightarrow> jsnum" where
  "max10_minus5 (Num t) = Num (max 10 (t - 5))"
| "max10_minus5 NaN = NaN"

datatype action = no_action | flag_for_review | confirm_unreliable | adjust_threshold_lower
  | insufficient_data | validation_error

record decision =
  d_action :: action
  d_reason :: "string option"
  d_analysis :: "analysis option"
  d_newThreshold :: "jsnum option"
  d_error :: "string option"

text \<open>The \<open>try\<close> block of \<open>systemValidate\<close>.\<close>

definition systemValidate_try ::
  "(string \<rightharpoonup> jsnum) \<Rightarrow> point list \<Rightarrow> (error + point list) option \<Rightarrow> error + decision" where
  "systemValidate_try globalThis local fetched =
     (let series = buildTrustSeries local fetched;
          analysis = analyzeSeries series
      in case analysis of
           NotOk r \<Rightarrow> Inr \<lparr>d_action = insufficient_data, d_reason = None, d_analysis = Some analysis,
                           d_newThreshold = None, d_error = None\<rparr>
         | Ok a \<Rightarrow>
             if drops a \<ge> DROP_COUNT_THRESHOLD \<and> samples a \<ge> 6
             then Inr \<lparr>d_action = confirm_unreliable, d_reason = Some ''recurring_drops'',
                       d_analysis = Some analysis, d_newThreshold = None, d_error = None\<rparr>
             else if instabilityFrac a \<ge> INSTABILITY_FRACTION
             then Inr \<lparr>d_action = flag_for_review, d_reason = Some ''high_instability'',
                       d_analysis = Some analysis, d_newThreshold = None, d_error = None\<rparr>
             else if slope a < - 2
             then (case TRUST_THRESHOLD globalThis of
                     Inl e \<Rightarrow> Inl e
                   | Inr t \<Rightarrow> Inr \<lparr>d_action = adjust_threshold_lower, d_reason = Some ''downward_trend'',
                                   d_analysis = Some analysis,
                                   d_newThreshold = Some (max10_minus5 t), d_error = None\<rparr>)
             else Inr \<lparr>d_action = no_action, d_reason = None, d_analysis = Some analysis,
                       d_newThreshold = None, d_error = None\<rparr>)"

text \<open>\<open>systemValidate\<close>: the \<open>catch\<close> block turns a thrown error into a decision.\<close>

definition systemValidate ::
  "(string \<rightharpoonup> jsnum) \<Rightarrow> point list \<Rightarrow> (error + point list) option \<Rightarrow> decision" where
  "systemValidate globalThis local fetched =
     (case systemValidate_try globalThis local fetched of
        Inr d \<Rightarrow> d
      | Inl err \<Rightarrow> \<lparr>d_action = validation_error, d_reason = None, d_analysis = None,
                     d_newThreshold = None, d_error = Some (err_text err)\<rparr>)"

section \<open>Ingestion gateway (index.js)\<close>

record config =
  GATEWAY_API_KEY :: string
  DEFAULT_THRESHOLD :: jsnum

record request =
  headers :: "string \<rightharpoonup> string"
  body :: "json option"

text \<open>\<open>Date.now()\<close> and \<open>new Date().toISOString()\<close> at the time of the request.\<close>

record clock =
  date_now :: real
  iso_string :: string

text \<open>
  The mutable module state: the per-group thresholds, the write queue of items with their
  attempt counters, and the flag of a running worker.
\<close>

record gateway_state =
  thresholds :: "string \<rightharpoonup> json"
  writeQueue :: "(json \<times> nat) list"
  processingQueue :: bool

datatype stage = Received | System_validation | System_validation_error | Pre_chain | Queued
  | Post_chain | Post_chain_failed | Final

record stored_event =
  se_eventId :: json
  se_deviceId :: json
  se_groupId :: string
  se_payload :: json
  se_dataHash :: "string option"
  se_trustA :: jsnum
  se_trustB :: jsnum
  se_localFlagged :: bool
  se_receivedAt :: string
  se_systemDecision :: "decision option"
  se_systemFlag :: "string option"
  se_flagged :: "bool option"
  se_thresholdChanged :: "jsnum option"

record telemetry =
  tm_timestamp :: json
  tm_distA :: json
  tm_distB :: json
  tm_trustA :: jsnum
  tm_trustB :: jsnum
  tm_controller :: json
  tm_rpm :: json
  tm_hash :: "string option"
  tm_flagged :: bool
  tm_deviceId :: json
  tm_groupId :: string

text \<open>
  Everything the gateway and its queue worker do to the outside, in program order:
  \<open>appendEvent\<close> on the event store (of a stored event, or of a queue item with the ledger
  result or the error text), \<open>io.emit\<close> on the fan-out channel by topic, the call of
  \<open>systemValidate\<close>, \<open>saveThresholds\<close>, a push on the write queue, the start of the
  worker, a ledger call, and a wait of so many milliseconds.
\<close>

datatype effect =
    AppendStored stage stored_event
  | AppendItem stage json "pal_result option" "string option"
  | EmitEventUpdate stage stored_event
  | EmitItemUpdate stage json "pal_result option" "string option"
  | EmitTelemetry telemetry
  | EmitSystemAlert json string decision
  | EmitThresholdUpdate string jsnum
  | EmitFlaggedEvent json "string option"
  | CallSystemValidate string json
  | SaveThresholds
  | QueuePush json nat
  | StartWorker
  | Ledger ledger_call
  | Sleep real

record feedback =
  fb_action :: action
  fb_reason :: "string option"
  fb_adjustThreshold :: "jsnum option"

text \<open>The answers of the handler: 401, the two 200 bodies, and 500.\<close>

datatype response =
    Resp_unauthorized
  | Resp_not_flagged "string option" decision
  | Resp_queued "string option" decision feedback
  | Resp_server_error string

definition verifyApiKey :: "config \<Rightarrow> string option \<Rightarrow> bool" where
  "verifyApiKey cfg key =
     (if GATEWAY_API_KEY cfg = [] then False
      else (case key of Some k \<Rightarrow> k \<noteq> [] \<and> k = GATEWAY_API_KEY cfg | None \<Rightarrow> False))"

text \<open>\<open>req.headers['x-api-key'] || req.headers['X-API-KEY']\<close>.\<close>

definition header_api_key :: "request \<Rightarrow> string option" where
  "header_api_key req = or_str (headers req ''x-api-key'') (headers req ''X-API-KEY'')"

text \<open>
  \<open>thresholds\<close> is a plain object and the map holds its own properties. A read
  \<open>thresholds[groupId]\<close> of a name that is no own property goes on to \<open>Object.prototype\<close>
  and finds, under the names below, a method (or the prototype itself, under
  \<open>__proto__\<close>): a value that \<open>??\<close> keeps and \<open>Number\<close> turns into \<open>NaN\<close>.
\<close>

definition Object_prototype_names :: "string list" where
  "Object_prototype_names =
     [''constructor'', ''__defineGetter__'', ''__defineSetter__'', ''hasOwnProperty'',
      ''__lookupGetter__'', ''__lookupSetter__'', ''isPrototypeOf'', ''propertyIsEnumerable'',
      ''toString'', ''valueOf'', ''__proto__'', ''toLocaleString'']"

text \<open>\<open>Number(thresholds[groupId] ?? DEFAULT_THRESHOLD)\<close>.\<close>

definition computeGroupThreshold :: "builtins \<Rightarrow> config \<Rightarrow> (string \<rightharpoonup> json) \<Rightarrow> string \<Rightarrow> jsnum" where
  "computeGroupThreshold bi cfg ths groupId =
     (if ths groupId = None \<and> groupId \<in> set Object_prototype_names then NaN
      else js_Number bi (nullish_else (ths groupId) (Prim (PNum (DEFAULT_THRESHOLD cfg)))))"

text \<open>
  The assignment \<open>thresholds[groupId] = newThreshold\<close> makes or updates an own property;
  under the name \<open>__proto__\<close>, when that is no own property, it calls the setter of the
  prototype, which ignores a number.
\<close>

definition thresholds_assign :: "(string \<rightharpoonup> json) \<Rightarrow> string \<Rightarrow> json \<Rightarrow> (string \<rightharpoonup> json)" where
  "thresholds_assign ths groupId v =
     (if groupId = ''__proto__'' \<and> ths groupId = None then ths else ths(groupId \<mapsto> v))"

text \<open>\<open>req.body || {}\<close>.\<close>

definition payload_of :: "request \<Rightarrow> json" where
  "payload_of req = or_else (body req) (JObj [])"

text \<open>
  Step 3: \<open>keccakHash(payload)\<close>, on a throw the hash of \<open>JSON.stringify(payload)\<close> through
  \<open>require('ethers/lib/utils')\<close>, and \<open>null\<close> when that throws too.
\<close>

definition compute_dataHash :: "builtins \<Rightarrow> ethers_pkg \<Rightarrow> json \<Rightarrow> string option" where
  "compute_dataHash bi eth payload =
     (case keccakHash bi eth payload of
        Inr h \<Rightarrow> Some h
      | Inl e \<Rightarrow> (case keccak_lib_utils eth of
                    Some h \<Rightarrow> Some (h (JSON_stringify bi payload))
                  | None \<Rightarrow> None))"

text \<open>\<open>v && String(v)\<close>, kept only when the outcome is truthy.\<close>

definition and_String :: "builtins \<Rightarrow> json option \<Rightarrow> string option" where
  "and_String bi v = (case v of Some x \<Rightarrow> if truthy x then Some (ToString bi x) else None | None \<Rightarrow> None)"

definition groupId_of :: "builtins \<Rightarrow> json \<Rightarrow> string" where
  "groupId_of bi payload =
     (case or_str (and_String bi (field payload ''groupId'')) (and_String bi (field payload ''deviceId'')) of
        Some s \<Rightarrow> s
      | None \<Rightarrow> ''group-1'')"

text \<open>\<open>(payload.trustA !== undefined) ? Number(payload.trustA) : 100\<close>, for either score.\<close>

definition trust_score :: "builtins \<Rightarrow> json \<Rightarrow> string \<Rightarrow> jsnum" where
  "trust_score bi payload k = (case field payload k of Some v \<Rightarrow> js_Number bi v | None \<Rightarrow> Num 100)"

text \<open>Step 4: the local threshold check.\<close>

definition localFlagged :: "builtins \<Rightarrow> config \<Rightarrow> (string \<rightharpoonup> json) \<Rightarrow> json \<Rightarrow> bool" where
  "localFlagged bi cfg ths payload =
     (let groupId = groupId_of bi payload;
          trustA = trust_score bi payload ''trustA'';
          trustB = trust_score bi payload ''trustB'';
          groupThreshold = computeGroupThreshold bi cfg ths groupId
      in js_lt trustA groupThreshold \<or> js_lt trustB groupThreshold)"

fun action_name :: "action \<Rightarrow> string" where
  "action_name no_action = ''no_action''"
| "action_name flag_for_review = ''flag_for_review''"
| "action_name confirm_unreliable = ''confirm_unreliable''"
| "action_name adjust_threshold_lower = ''adjust_threshold_lower''"
| "action_name insufficient_data = ''insufficient_data''"
| "action_name validation_error = ''validation_error''"

text \<open>The decision and its analysis as the objects that travel inside a queue item.\<close>

fun analysis_json :: "analysis \<Rightarrow> json" where
  "analysis_json (NotOk r) = JObj [(''ok'', Prim (PBool False)), (''reason'', Prim (PStr r))]"
| "analysis_json (Ok a) =
     JObj [(''ok'', Prim (PBool True)),
           (''drops'', Prim (PNum (Num (real (drops a))))),
           (''instabilityFrac'', Prim (PNum (Num (instabilityFrac a)))),
           (''slope'', Prim (PNum (Num (slope a)))),
           (''samples'', Prim (PNum (Num (real (samples a)))))]"

definition decision_json :: "decision \<Rightarrow> json" where
  "decision_json d =
     JObj ([(''action'', Prim (PStr (action_name (d_action d))))]
           @ (case d_reason d of Some r \<Rightarrow> [(''reason'', Prim (PStr r))] | None \<Rightarrow> [])
           @ (case d_analysis d of Some a \<Rightarrow> [(''analysis'', analysis_json a)] | None \<Rightarrow> [])
           @ (case d_newThreshold d of Some t \<Rightarrow> [(''newThreshold'', Prim (PNum t))] | None \<Rightarrow> [])
           @ (case d_error d of Some e \<Rightarrow> [(''error'', Prim (PStr e))] | None \<Rightarrow> []))"

text \<open>A number taken as a condition: \<open>NaN\<close> and 0 are falsy.\<close>

fun truthy_num :: "jsnum option \<Rightarrow> bool" where
  "truthy_num (Some (Num r)) = (r \<noteq> 0)"
| "truthy_num _ = False"

text \<open>
  Step 7 after \<open>systemValidate\<close> has returned or thrown: the stored event, the decision,
  the effects and the thresholds that result.
\<close>

definition after_validation ::
  "stored_event \<Rightarrow> jsnum \<Rightarrow> (string \<rightharpoonup> json) \<Rightarrow> error + decision
     \<Rightarrow> stored_event \<times> decision \<times> effect list \<times> (string \<rightharpoonup> json)" where
  "after_validation se groupThreshold ths outcome =
     (case outcome of
        Inr d \<Rightarrow>
          (let se1 = se\<lparr>se_systemDecision := Some d\<rparr>;
               recorded = [AppendStored System_validation se1, EmitEventUpdate System_validation se1]
           in
           if d_action d = confirm_unreliable then
             (se1\<lparr>se_systemFlag := Some ''confirmed_unreliable'', se_flagged := Some True\<rparr>, d,
              recorded @ [EmitSystemAlert (se_deviceId se) (se_groupId se) d], ths)
           else if d_action d = adjust_threshold_lower then
             (let newThreshold = (case d_newThreshold d of
                                    Some t \<Rightarrow> if truthy_num (Some t) then t else groupThreshold
                                  | None \<Rightarrow> groupThreshold)
              in (se1\<lparr>se_thresholdChanged := Some newThreshold\<rparr>, d,
                  recorded @ [SaveThresholds, EmitThresholdUpdate (se_groupId se) newThreshold],
                  thresholds_assign ths (se_groupId se) (Prim (PNum newThreshold))))
           else if d_action d = flag_for_review then
             (se1, d, recorded @ [EmitSystemAlert (se_deviceId se) (se_groupId se) d], ths)
           else (se1, d, recorded, ths))
      | Inl err \<Rightarrow>
          (let d = \<lparr>d_action = validation_error, d_reason = None, d_analysis = None,
                    d_newThreshold = None, d_error = Some (err_text err)\<rparr>;
               se1 = se\<lparr>se_systemDecision := Some d\<rparr>
           in (se1, d, [AppendStored System_validation_error se1], ths)))"

text \<open>Steps 10 and 11: the queue item, an object with its properties in the order written.\<close>

definition queue_item :: "builtins \<Rightarrow> clock \<Rightarrow> stored_event \<Rightarrow> decision \<Rightarrow> json" where
  "queue_item bi clk se d =
     (let payload = se_payload se;
          oldTS = js_Number bi (nullish_else (field payload ''oldTS'')
                     (nullish_else (field payload ''oldTrustA'') (Prim (PNum (se_trustA se)))));
          newTS = js_Number bi (nullish_else (field payload ''newTS'')
                     (nullish_else (field payload ''newTrustA'') (Prim (PNum (se_trustB se)))));
          reason = ToString bi (or_else (field payload ''reason'')
                     (case d_reason d of
                        Some r \<Rightarrow> if r = [] then Prim (PStr ''LOW_TRUST'') else Prim (PStr r)
                      | None \<Rightarrow> Prim (PStr ''LOW_TRUST'')));
          ts = js_floor (js_div1000 (js_Number bi
                 (or_else (field payload ''ts'')
                    (or_else (field payload ''timestamp'') (Prim (PNum (Num (date_now clk))))))))
      in JObj [(''eventId'', se_eventId se),
               (''deviceId'', se_deviceId se),
               (''groupId'', Prim (PStr (se_groupId se))),
               (''oldTS'', Prim (PNum oldTS)),
               (''newTS'', Prim (PNum newTS)),
               (''reason'', Prim (PStr reason)),
               (''dataHash'', (case se_dataHash se of Some h \<Rightarrow> Prim (PStr h) | None \<Rightarrow> Prim PNull)),
               (''ts'', Prim (PNum ts)),
               (''payload'', payload),
               (''trustA'', Prim (PNum (se_trustA se))),
               (''trustB'', Prim (PNum (se_trustB se))),
               (''flagged'', Prim (PBool True)),
               (''systemDecision'', decision_json d)])"

text \<open>
  \<open>enqueueChainLog\<close>: the push with attempt counter 0, the \<open>queued\<close> record, and the start
  of the worker when none is running (the worker sets \<open>processingQueue\<close> at once).
\<close>

definition enqueueChainLog :: "json \<Rightarrow> gateway_state \<Rightarrow> effect list \<times> gateway_state" where
  "enqueueChainLog evt st =
     ([QueuePush evt 0, AppendItem Queued evt None None]
        @ (if processingQueue st then [] else [StartWorker]),
      st\<lparr>writeQueue := writeQueue st @ [(evt, 0)], processingQueue := True\<rparr>)"

text \<open>
  Steps 2 to 5: the \<open>storedEvent\<close> of a request, before the analysis has run.
\<close>

definition received_event ::
  "builtins \<Rightarrow> ethers_pkg \<Rightarrow> config \<Rightarrow> clock \<Rightarrow> gateway_state \<Rightarrow> request \<Rightarrow> stored_event" where
  "received_event bi eth cfg clk st req =
     (let payload = payload_of req;
          dataHash = compute_dataHash bi eth payload;
          groupId = groupId_of bi payload;
          deviceId = or_else (field payload ''deviceId'') (Prim (PStr ''unknown''));
          trustA = trust_score bi payload ''trustA'';
          trustB = trust_score bi payload ''trustB'';
          flaggedLocal = localFlagged bi cfg (thresholds st) payload;
          eventId = or_else (field payload ''eventId'')
                      (Prim (PStr (''evt-'' @ ToString bi (Prim (PNum (Num (date_now clk)))))))
      in \<lparr>se_eventId = eventId, se_deviceId = deviceId, se_groupId = groupId,
          se_payload = payload, se_dataHash = dataHash, se_trustA = trustA,
          se_trustB = trustB, se_localFlagged = flaggedLocal,
          se_receivedAt = iso_string clk, se_systemDecision = None,
          se_systemFlag = None, se_flagged = None, se_thresholdChanged = None\<rparr>)"

text \<open>Step 6: the \<open>telemetryPayload\<close> built from \<open>storedEvent\<close>.\<close>

definition telemetry_of :: "clock \<Rightarrow> stored_event \<Rightarrow> telemetry" where
  "telemetry_of clk storedEvent =
     (let payload = se_payload storedEvent in
      \<lparr>tm_timestamp = or_else (field payload ''ts'')
                         (Prim (PNum (js_floor (js_div1000 (Num (date_now clk)))))),
       tm_distA = nullish_else (field payload ''distA'') (Prim PNull),
       tm_distB = nullish_else (field payload ''distB'') (Prim PNull),
       tm_trustA = se_trustA storedEvent, tm_trustB = se_trustB storedEvent,
       tm_controller = or_else (field payload ''controller'')
                         (Prim (PStr (if js_ge (se_trustA storedEvent) (se_trustB storedEvent)
                                      then ''A'' else ''B''))),
       tm_rpm = nullish_else (field payload ''rpm'')
                  (nullish_else (field payload ''speed'') (Prim PNull)),
       tm_hash = se_dataHash storedEvent, tm_flagged = se_localFlagged storedEvent,
       tm_deviceId = se_deviceId storedEvent, tm_groupId = se_groupId storedEvent\<rparr>)"

text \<open>
  Steps 8 to 11, once step 7 has left the stored event \<open>se2\<close>, the decision, its effects
  and the thresholds: the \<open>pre-chain\<close> record, then the answer, after \<open>enqueueChainLog\<close>
  when the event is flagged.
\<close>

definition finish_request ::
  "builtins \<Rightarrow> clock \<Rightarrow> gateway_state \<Rightarrow> stored_event \<times> decision \<times> effect list \<times> (string \<rightharpoonup> json)
     \<Rightarrow> response \<times> effect list \<times> gateway_state" where
  "finish_request bi clk st validated =
     (let se2 = fst validated;
          systemDecision = fst (snd validated);
          finalFlagged = (se_flagged se2 = Some True \<or> se_localFlagged se2
                          \<or> d_action systemDecision = confirm_unreliable);
          se3 = se2\<lparr>se_flagged := Some finalFlagged\<rparr>;
          st2 = st\<lparr>thresholds := snd (snd (snd validated))\<rparr>;
          before_chain = fst (snd (snd validated))
                         @ [AppendStored Pre_chain se3, EmitEventUpdate Pre_chain se3]
      in
      if \<not> finalFlagged
      then (Resp_not_flagged (se_dataHash se2) systemDecision, before_chain, st2)
      else
        let queued = enqueueChainLog (queue_item bi clk se3 systemDecision) st2;
            fb = \<lparr>fb_action = d_action systemDecision,
                  fb_reason = (case d_reason systemDecision of
                                 Some r \<Rightarrow> if r = [] then None else Some r
                               | None \<Rightarrow> None),
                  fb_adjustThreshold = (if truthy_num (d_newThreshold systemDecision)
                                        then d_newThreshold systemDecision else None)\<rparr>
        in (Resp_queued (se_dataHash se2) systemDecision fb, before_chain @ fst queued, snd queued))"

text \<open>
  The handler of \<open>POST /data\<close>. \<open>validation\<close> is what the awaited call of
  \<open>systemValidate\<close> gives: a decision, or a thrown error. The result is the response, the
  effects in program order, and the module state afterwards. No step of the model throws, so
  the answer 500 of the outer \<open>catch\<close> is never built.
\<close>

definition post_data ::
  "builtins \<Rightarrow> ethers_pkg \<Rightarrow> config \<Rightarrow> clock \<Rightarrow> error + decision \<Rightarrow> gateway_state \<Rightarrow> request
     \<Rightarrow> response \<times> effect list \<times> gateway_state" where
  "post_data bi eth cfg clk validation st req =
     (if \<not> verifyApiKey cfg (header_api_key req) then (Resp_unauthorized, [], st)
      else
        let storedEvent = received_event bi eth cfg clk st req;
            arrival = [AppendStored Received storedEvent, EmitEventUpdate Received storedEvent,
                       EmitTelemetry (telemetry_of clk storedEvent)];
            groupThreshold = computeGroupThreshold bi cfg (thresholds st) (se_groupId storedEvent);
            called = [CallSystemValidate (se_groupId storedEvent) (se_deviceId storedEvent)];
            validated = after_validation storedEvent groupThreshold (thresholds st) validation;
            finished = finish_request bi clk st validated
        in (fst finished, arrival @ called @ fst (snd finished), snd (snd finished)))"

section \<open>Durable write queue (index.js)\<close>

text \<open>
  The \<open>try\<close> block of one round of \<open>processQueue\<close>: the effects it performed and the error
  it threw, if any. \<open>item.payload.ts\<close> throws when a flagged item has no payload.
\<close>

definition queue_try :: "builtins \<Rightarrow> blockchain \<Rightarrow> real \<Rightarrow> json \<Rightarrow> error option \<times> effect list" where
  "queue_try bi bc now item =
     (case processAndLog bi bc now (Some item) of
        (Inl e, calls) \<Rightarrow> (Some e, map Ledger calls)
      | (Inr result, calls) \<Rightarrow>
          (let done = map Ledger calls
                      @ [AppendItem Post_chain item (Some result) None,
                         EmitItemUpdate Final item (Some result) None]
           in
           if (case field item ''flagged'' of Some f \<Rightarrow> truthy f | None \<Rightarrow> False) then
             (case field item ''payload'' of
                None \<Rightarrow> (Some (TypeError ''Cannot read properties of undefined''), done)
              | Some (Prim PNull) \<Rightarrow> (Some (TypeError ''Cannot read properties of null''), done)
              | Some payload \<Rightarrow>
                  (None, done @ [EmitFlaggedEvent item (res_txHash result), Sleep 500]))
           else (None, done @ [Sleep 500])))"

definition maxAttempts :: nat where "maxAttempts = 4"

text \<open>
  \<open>processQueue\<close>, the worker alone on a given queue: it returns the effects of draining it.
  A round takes the head; on a thrown error it pushes the item back at the tail with
  \<open>nextAttempt\<close> and waits \<open>1000 * 2^nextAttempt\<close> ms when \<open>nextAttempt < maxAttempts\<close>, else
  it records and publishes \<open>post-chain-failed\<close>.
\<close>

function processQueue :: "builtins \<Rightarrow> blockchain \<Rightarrow> real \<Rightarrow> (json \<times> nat) list \<Rightarrow> effect list" where
  "processQueue bi bc now [] = []"
| "processQueue bi bc now ((item, attempts) # rest) =
     (case fst (queue_try bi bc now item) of
        None \<Rightarrow> snd (queue_try bi bc now item) @ processQueue bi bc now rest
      | Some err \<Rightarrow>
          if attempts + 1 < maxAttempts then
            snd (queue_try bi bc now item)
              @ [QueuePush item (attempts + 1), Sleep (1000 * 2 ^ (attempts + 1))]
              @ processQueue bi bc now (rest @ [(item, attempts + 1)])
          else
            snd (queue_try bi bc now item)
              @ [AppendItem Post_chain_failed item None (Some (err_text err)),
                 EmitItemUpdate Post_chain_failed item None (Some (err_text err))]
              @ processQueue bi bc now rest)"
  by pat_completeness auto
termination
  by (relation "measure (\<lambda>(bi, bc, now, q). sum_list (map (\<lambda>w. Suc (maxAttempts - Suc (snd w))) q))")
     (auto simp: maxAttempts_def)

section \<open>Inputs for the examples\<close>

text \<open>
  A local point as \<open>readLocalEventsForGroup\<close> builds it from a stored record of group \<open>g\<close>
  with timestamp \<open>t\<close> and trust score \<open>v\<close>. An on-chain point as
  \<open>fetchOnChainTrustEvents\<close> decodes it from a log emitted for group \<open>g\<close>: its
  \<open>groupId\<close> is the \<open>Indexed\<close> object with the topic of \<open>g\<close>, here under a hash that
  prefixes its input.
\<close>

definition local_point :: "string \<Rightarrow> real \<Rightarrow> real \<Rightarrow> point" where
  "local_point g t v = \<lparr>p_groupId = GStr g, p_oldTS = Some (Num 100), p_newTS = Some (Num v),
     p_reason = Some ''LOCAL'', p_ts = Some (Num t), p_source = Local\<rparr>"

definition example_topic :: "string \<Rightarrow> string" where
  "example_topic g = ''0x'' @ g"

definition onchain_point :: "string \<Rightarrow> real \<Rightarrow> real \<Rightarrow> real \<Rightarrow> point" where
  "onchain_point g t old new = \<lparr>p_groupId = GIndexed (example_topic g), p_oldTS = Some (Num old),
     p_newTS = Some (Num new), p_reason = Some ''LOW_TRUST'', p_ts = Some (Num t),
     p_source = Onchain\<rparr>"

text \<open>
  An instance of the built-ins for the examples: strings are rendered between double
  quotes, every other value by a fixed text; conversions of strings to numbers give
  \<open>NaN\<close>. The hash of the examples prefixes its input.
\<close>

definition example_builtins :: builtins where
  "example_builtins =
     \<lparr>JSON_stringify = (\<lambda>v. case v of Prim (PStr s) \<Rightarrow> ''\"'' @ s @ ''\"''
                              | Prim PNull \<Rightarrow> ''null''
                              | Prim (PBool b) \<Rightarrow> (if b then ''true'' else ''false'')
                              | _ \<Rightarrow> ''0''),
      ToNumber_other = (\<lambda>v. NaN),
      ToString = (\<lambda>v. case v of Prim (PStr s) \<Rightarrow> s | _ \<Rightarrow> ''0'')\<rparr>"

definition example_ethers :: ethers_pkg where
  "example_ethers = \<lparr>keccak_v6 = Some (\<lambda>s. ''0x'' @ s), keccak_v5 = None, keccak_lib_utils = None\<rparr>"

text \<open>
  A gateway with the default key and threshold, an idle module state, and a request with
  the given credential header and body.
\<close>

definition example_config :: config where
  "example_config = \<lparr>GATEWAY_API_KEY = ''dhanushharini03080411'', DEFAULT_THRESHOLD = Num 60\<rparr>"

definition example_clock :: clock where
  "example_clock = \<lparr>date_now = 1700000000000, iso_string = ''2023-11-14T22:13:20.000Z''\<rparr>"

definition idle_state :: gateway_state where
  "idle_state = \<lparr>thresholds = Map.empty, writeQueue = [], processingQueue = False\<rparr>"



definition example_request :: "string option \<Rightarrow> json \<Rightarrow> request" where
  "example_request key payload =
     \<lparr>headers = (case key of Some k \<Rightarrow> [''x-api-key'' \<mapsto> k] | None \<Rightarrow> Map.empty), body = Some payload\<rparr>"

text \<open>
  Two ledgers: one left unconfigured, one whose \<open>logTrustEvent\<close> rejects every call.
\<close>

definition disabled_chain :: blockchain where
  "disabled_chain = \<lparr>contract = None, wallet = None,
     provider_waitForTransaction = (\<lambda>h. Inr None), ethers = example_ethers\<rparr>"

definition failing_chain :: blockchain where
  "failing_chain = \<lparr>contract = Some (\<lambda>args. Inl (Error ''could not detect network'')),
     wallet = Some ''0xf39Fd6e51aad88F6F4ce6aB8827279cffFb92266'',
     provider_waitForTransaction = (\<lambda>h. Inr None), ethers = example_ethers\<rparr>"

text \<open>A flagged queue item.\<close>

definition example_item :: json where
  "example_item =
     JObj [(''eventId'', Prim (PStr ''evt-1'')),
           (''groupId'', Prim (PStr ''group-1'')),
           (''oldTS'', Prim (PNum (Num 55))),
           (''newTS'', Prim (PNum (Num 90))),
           (''reason'', Prim (PStr ''LOW_TRUST'')),
           (''ts'', Prim (PNum (Num 1700000000))),
           (''payload'', JObj [(''trustA'', Prim (PNum (Num 55))), (''trustB'', Prim (PNum (Num 90)))]),
           (''flagged'', Prim (PBool True))]"

text \<open>
  The hash of \<open>example_item\<close> under the example built-ins, the ledger arguments
  \<open>processAndLog\<close> derives from the item, and the result it returns when the ledger
  rejects the call.
\<close>

definition example_item_hash :: string where
  "example_item_hash = ''0x{\"eventId\":\"evt-1\",\"flagged\":true,\"groupId\":\"group-1\",\"newTS\":0,\"oldTS\":0,\"payload\":{\"trustA\":0,\"trustB\":0},\"reason\":\"LOW_TRUST\",\"ts\":0}''"

definition example_ledger_args :: ledger_args where
  "example_ledger_args =
     \<lparr>la_groupId = Prim (PStr ''group-1''), la_oldTS = Num 55, la_newTS = Num 90,
      la_reason = Prim (PStr ''LOW_TRUST''), la_dataHash = example_item_hash,
      la_ts = Num 1700000000\<rparr>"

definition example_failure :: pal_result where
  "example_failure =
     \<lparr>res_txHash = None, res_hash = Some example_item_hash, res_success = False,
      res_error = Some ''could not detect network'', res_receipt = None\<rparr>"

text \<open>A flagged item that lacks its payload.\<close>

definition item_without_payload :: json where
  "item_without_payload = JObj [(''eventId'', Prim (PStr ''evt-2'')), (''flagged'', Prim (PBool True))]"

definition item_without_payload_hash :: string where
  "item_without_payload_hash = ''0x{\"eventId\":\"evt-2\",\"flagged\":true}''"

section \<open>The dedup loop of buildTrustSeries\<close>

lemma findIndex_Some: "findIndex P xs = Some i \<Longrightarrow> i < length xs \<and> P (xs ! i)"
  by (induction xs arbitrary: i) (auto split: if_splits)

lemma findIndex_None: "findIndex P xs = None \<Longrightarrow> x \<in> set xs \<Longrightarrow> \<not> P x"
  by (induction xs) (auto split: if_splits)

lemma strict_eq_ts_or_0: "strict_eq_ts a b \<Longrightarrow> ts_or_0 a = ts_or_0 b"
  by (induction a b rule: strict_eq_ts.induct) auto

lemma strict_eq_group_text: "strict_eq_group a b \<Longrightarrow> groupId_or_empty a = groupId_or_empty b"
  by (induction a b rule: strict_eq_group.induct) auto

lemma same_group_ts_key: "same_group_ts d item \<Longrightarrow> seen_key d = seen_key item"
  by (simp add: same_group_ts_def seen_key_def strict_eq_ts_or_0 strict_eq_group_text)

lemma dedupe_inv_push:
  assumes inv: "dedupe_inv handled (deduped, seen)" and new: "seen_key item \<notin> seen"
  shows "dedupe_inv (handled @ [item]) (deduped @ [item], insert (seen_key item) seen)"
proof -
  have seen: "seen = seen_key ` set deduped" and keys: "seen_key ` set handled \<subseteq> seen"
    using inv by (auto simp: dedupe_inv_def)
  have other: "p_source d = Local"
    if d: "d \<in> set (deduped @ [item])" and l: "l \<in> set (handled @ [item])"
      and ll: "p_source l = Local" and s: "same_group_ts d l" for d l
  proof -
    have k: "seen_key d = seen_key l" using s by (rule same_group_ts_key)
    consider "d = item" "l = item" | "d = item" "l \<in> set handled"
      | "d \<in> set deduped" "l = item" | "d \<in> set deduped" "l \<in> set handled"
      using d l by auto
    then show ?thesis
    proof cases
      case 1
      then show ?thesis using ll by simp
    next
      case 2
      then have "seen_key item \<in> seen" using k keys by auto
      with new show ?thesis by simp
    next
      case 3
      then have "seen_key item \<in> seen" using k seen by (metis imageI)
      with new show ?thesis by simp
    next
      case 4
      then show ?thesis using inv ll s by (auto simp: dedupe_inv_def)
    qed
  qed
  have dist: "distinct (map seen_key deduped)" and sub: "set deduped \<subseteq> set handled"
    using inv by (auto simp: dedupe_inv_def)
  show ?thesis
    unfolding dedupe_inv_def fst_conv snd_conv
  proof (intro conjI ballI impI)
    show "insert (seen_key item) seen = seen_key ` set (deduped @ [item])"
      using seen by auto
    show "distinct (map seen_key (deduped @ [item]))"
      using dist new seen by auto
    show "set (deduped @ [item]) \<subseteq> set (handled @ [item])"
      using sub by auto
    show "seen_key ` set (handled @ [item]) \<subseteq> insert (seen_key item) seen"
      using keys by auto
  next
    fix d l
    assume "d \<in> set (deduped @ [item])" "l \<in> set (handled @ [item])"
      "p_source l = Local" "same_group_ts d l"
    then show "p_source d = Local" by (rule other)
  qed
qed

lemma dedupe_inv_replace:
  assumes inv: "dedupe_inv handled (deduped, seen)" and old: "seen_key item \<in> seen"
    and loc: "p_source item = Local"
    and idx: "findIndex (\<lambda>d. same_group_ts d item) deduped = Some idx"
  shows "dedupe_inv (handled @ [item]) (deduped[idx := item], seen)"
proof -
  from idx have lt: "idx < length deduped" and same: "same_group_ts (deduped ! idx) item"
    using findIndex_Some by fastforce+
  have key: "seen_key (deduped ! idx) = seen_key item"
    using same by (rule same_group_ts_key)
  have keys: "map seen_key (deduped[idx := item]) = map seen_key deduped"
    using lt key by (simp add: map_update list_update_same_conv)
  have img: "seen_key ` set (deduped[idx := item]) = seen_key ` set deduped"
    using keys by (metis list.set_map)
  have dist: "distinct (map seen_key deduped)"
    using inv by (simp add: dedupe_inv_def)
  have other: "p_source d = Local"
    if d: "d \<in> set (deduped[idx := item])" and l: "l \<in> set (handled @ [item])"
      and ll: "p_source l = Local" and s: "same_group_ts d l" for d l
  proof -
    from d obtain j where j: "j < length deduped" "d = deduped[idx := item] ! j"
      by (auto simp: in_set_conv_nth)
    show ?thesis
    proof (cases "j = idx")
      case True
      then show ?thesis using j lt loc by simp
    next
      case False
      then have dj: "d = deduped ! j" using j by simp
      show ?thesis
      proof (cases "l = item")
        case True
        then have "seen_key (deduped ! j) = seen_key (deduped ! idx)"
          using s dj key same_group_ts_key by metis
        then have "map seen_key deduped ! j = map seen_key deduped ! idx"
          using j lt by simp
        then have "j = idx"
          using dist j lt nth_eq_iff_index_eq [of "map seen_key deduped" j idx] by simp
        with False show ?thesis by simp
      next
        case False
        then have "l \<in> set handled" using l by simp
        moreover have "d \<in> set deduped" using dj j by simp
        ultimately show ?thesis using inv ll s by (auto simp: dedupe_inv_def)
      qed
    qed
  qed
  have sub: "set (deduped[idx := item]) \<subseteq> set (handled @ [item])"
    using inv set_update_subset_insert [of deduped idx item] by (auto simp: dedupe_inv_def)
  have seen: "seen = seen_key ` set deduped" and pk: "seen_key ` set handled \<subseteq> seen"
    using inv by (auto simp: dedupe_inv_def)
  show ?thesis
    unfolding dedupe_inv_def fst_conv snd_conv
  proof (intro conjI ballI impI)
    show "seen = seen_key ` set (deduped[idx := item])"
      using seen img by simp
    show "distinct (map seen_key (deduped[idx := item]))"
      using dist keys by simp
    show "set (deduped[idx := item]) \<subseteq> set (handled @ [item])"
      by (rule sub)
    show "seen_key ` set (handled @ [item]) \<subseteq> seen"
      using pk old by auto
  next
    fix d l
    assume "d \<in> set (deduped[idx := item])" "l \<in> set (handled @ [item])"
      "p_source l = Local" "same_group_ts d l"
    then show "p_source d = Local" by (rule other)
  qed
qed

lemma dedupe_inv_keep:
  assumes inv: "dedupe_inv handled (deduped, seen)" and old: "seen_key item \<in> seen"
    and no: "p_source item = Local \<Longrightarrow> findIndex (\<lambda>d. same_group_ts d item) deduped = None"
  shows "dedupe_inv (handled @ [item]) (deduped, seen)"
proof -
  have pk: "seen_key ` set handled \<subseteq> seen" and sub: "set deduped \<subseteq> set handled"
    and seen: "seen = seen_key ` set deduped" and dist: "distinct (map seen_key deduped)"
    using inv by (auto simp: dedupe_inv_def)
  have other: "p_source d = Local"
    if d: "d \<in> set deduped" and l: "l \<in> set (handled @ [item])"
      and ll: "p_source l = Local" and s: "same_group_ts d l" for d l
  proof (cases "l = item")
    case True
    then have "findIndex (\<lambda>d. same_group_ts d item) deduped = None" using no ll by simp
    from findIndex_None [OF this d] s True show ?thesis by simp
  next
    case False
    then have "l \<in> set handled" using l by simp
    then show ?thesis using inv d ll s by (auto simp: dedupe_inv_def)
  qed
  show ?thesis
    unfolding dedupe_inv_def fst_conv snd_conv
  proof (intro conjI ballI impI)
    show "seen = seen_key ` set deduped" by (rule seen)
    show "distinct (map seen_key deduped)" by (rule dist)
    show "set deduped \<subseteq> set (handled @ [item])" using sub by auto
    show "seen_key ` set (handled @ [item]) \<subseteq> seen" using pk old by auto
  next
    fix d l
    assume "d \<in> set deduped" "l \<in> set (handled @ [item])"
      "p_source l = Local" "same_group_ts d l"
    then show "p_source d = Local" by (rule other)
  qed
qed

lemma dedupe_inv_step:
  assumes "dedupe_inv handled st"
  shows "dedupe_inv (handled @ [item]) (dedupe_step st item)"
proof (cases st)
  case (Pair deduped seen)
  with assms have inv: "dedupe_inv handled (deduped, seen)" by simp
  show ?thesis
  proof (cases "seen_key item \<in> seen")
    case False
    then show ?thesis using dedupe_inv_push [OF inv] Pair by (simp add: dedupe_step_def)
  next
    case True
    show ?thesis
    proof (cases "p_source item = Local")
      case False
      then show ?thesis using dedupe_inv_keep [OF inv True] Pair True by (simp add: dedupe_step_def)
    next
      case loc: True
      show ?thesis
      proof (cases "findIndex (\<lambda>d. same_group_ts d item) deduped")
        case None
        then show ?thesis using dedupe_inv_keep [OF inv True] Pair True loc by (simp add: dedupe_step_def)
      next
        case (Some idx)
        then show ?thesis using dedupe_inv_replace [OF inv True loc Some] Pair True loc
          by (simp add: dedupe_step_def)
      qed
    qed
  qed
qed

lemma dedupe_inv_foldl:
  "dedupe_inv handled st \<Longrightarrow> dedupe_inv (handled @ xs) (foldl dedupe_step st xs)"
proof (induction xs arbitrary: handled st)
  case Nil
  then show ?case by simp
next
  case (Cons x xs)
  from Cons.IH [OF dedupe_inv_step [OF Cons.prems, of x]] show ?case by simp
qed

lemma dedupe_inv_dedupe: "dedupe_inv merged (dedupe merged, snd (foldl dedupe_step ([], {}) merged))"
proof -
  have "dedupe_inv [] ([], {})" by (simp add: dedupe_inv_def)
  from dedupe_inv_foldl [OF this, of merged] show ?thesis by (simp add: dedupe_def)
qed


text \<open>
  What the loop does guarantee: the keys of the kept points are pairwise different, every
  kept point is one of the merged points, and a kept point that passes the test of
  \<open>findIndex\<close> against a local point of the merged list is local.
\<close>

lemma dedupe_distinct_keys: "distinct (map seen_key (dedupe merged))"
  using dedupe_inv_dedupe [of merged] by (simp add: dedupe_inv_def)

lemma dedupe_subset: "set (dedupe merged) \<subseteq> set merged"
  using dedupe_inv_dedupe [of merged] by (simp add: dedupe_inv_def)

lemma dedupe_local_wins:
  "d \<in> set (dedupe merged) \<Longrightarrow> l \<in> set merged \<Longrightarrow> p_source l = Local \<Longrightarrow> same_group_ts d l
     \<Longrightarrow> p_source d = Local"
  using dedupe_inv_dedupe [of merged] unfolding dedupe_inv_def fst_conv by blast

text \<open>
  A decoded on-chain point never passes the test of \<open>findIndex\<close>, against any item: its
  group value is an object of its own.
\<close>

lemma indexed_never_same_group_ts:
  "p_groupId d = GIndexed h \<Longrightarrow> \<not> same_group_ts d item"
  by (simp add: same_group_ts_def)

text \<open>
  Claim C3. The claim promises that of a local and an on-chain point of one group and one
  timestamp only the local one survives. A decoded on-chain point carries the \<open>Indexed\<close>
  object as its group, so its key never equals the key of a local point and the test of
  \<open>findIndex\<close> never finds it: for the local history of group \<open>g\<close> at timestamps 1 and 2
  and the logs of group \<open>g\<close> at timestamps 2 and 3 the series keeps all four points, the
  on-chain point of timestamp 2 next to the local one.
\<close>

theorem buildTrustSeries_keeps_onchain_duplicate:
  "buildTrustSeries [local_point ''g'' 1 90, local_point ''g'' 2 80]
        (Some (Inr [onchain_point ''g'' 2 90 70, onchain_point ''g'' 3 70 60]))
     = [local_point ''g'' 1 90, onchain_point ''g'' 2 90 70, local_point ''g'' 2 80,
        onchain_point ''g'' 3 70 60]
   \<and> p_ts (onchain_point ''g'' 2 90 70) = p_ts (local_point ''g'' 2 80)
   \<and> p_source (onchain_point ''g'' 2 90 70) = Onchain
   \<and> p_source (local_point ''g'' 2 80) = Local
   \<and> p_groupId (local_point ''g'' 2 80) = GStr ''g''
   \<and> p_groupId (onchain_point ''g'' 2 90 70) = GIndexed (example_topic ''g'')"
  by (simp add: buildTrustSeries_def dedupe_def dedupe_step_def seen_key_def same_group_ts_def
      WINDOW_EVENTS_def local_point_def onchain_point_def example_topic_def)

section \<open>Order independence of the canonical hasher\<close>

lemma stableStringify_key_order:
  "same_up_to_key_order a b \<Longrightarrow> stableStringify bi a = stableStringify bi b"
proof (induction rule: same_up_to_key_order.induct)
  case (prim p)
  show ?case by simp
next
  case (arr xs ys)
  then have "map (stableStringify bi) xs = map (stableStringify bi) ys"
    by (induction rule: list_all2_induct) auto
  then show ?case by simp
next
  case (obj kvs kvs')
  have keys: "sort (map fst kvs) = sort (map fst kvs')"
    using obj.hyps(1-3) by (intro sorted_distinct_set_unique) simp_all
  have "(case map_of kvs k of Some v \<Rightarrow> stableStringify bi v | None \<Rightarrow> ''undefined'')
      = (case map_of kvs' k of Some v \<Rightarrow> stableStringify bi v | None \<Rightarrow> ''undefined'')"
    if "k \<in> set (map fst kvs)" for k
  proof -
    from that obtain v where v: "map_of kvs k = Some v"
      by (metis map_of_eq_None_iff not_Some_eq set_map)
    from that obj.hyps(3) obtain v' where v': "map_of kvs' k = Some v'"
      by (metis map_of_eq_None_iff not_Some_eq set_map)
    from obj.IH v v' have "stableStringify bi v = stableStringify bi v'" by blast
    with v v' show ?thesis by simp
  qed
  then have "map (\<lambda>k. JSON_stringify bi (Prim (PStr k)) @ '':'' @
                 (case map_of kvs k of Some v \<Rightarrow> stableStringify bi v | None \<Rightarrow> ''undefined''))
            (sort (map fst kvs))
           = map (\<lambda>k. JSON_stringify bi (Prim (PStr k)) @ '':'' @
                 (case map_of kvs' k of Some v \<Rightarrow> stableStringify bi v | None \<Rightarrow> ''undefined''))
            (sort (map fst kvs'))"
    unfolding keys [symmetric] by (intro map_cong) simp_all
  then show ?case by (simp only: stableStringify.simps)
qed

text \<open>
  Claim C4. Two payloads that differ only in the insertion order of the keys of their
  objects, at any depth, have the same \<open>stableStringify\<close> text and the same \<open>keccakHash\<close>
  outcome.
\<close>

theorem canonical_hash_order_independent:
  "same_up_to_key_order a b \<Longrightarrow>
     stableStringify bi a = stableStringify bi b \<and> keccakHash bi eth a = keccakHash bi eth b"
  by (simp add: keccakHash_def stableStringify_key_order)

theorem canonical_hash_order_independent_witness:
  "same_up_to_key_order
     (JObj [(''deviceId'', Prim (PStr ''esp32-01'')), (''reason'', Prim (PStr ''LOW_TRUST'')),
            (''meta'', JObj [(''ok'', Prim (PBool True)), (''note'', Prim PNull)])])
     (JObj [(''meta'', JObj [(''note'', Prim PNull), (''ok'', Prim (PBool True))]),
            (''reason'', Prim (PStr ''LOW_TRUST'')), (''deviceId'', Prim (PStr ''esp32-01''))])
   \<and> stableStringify example_builtins
       (JObj [(''deviceId'', Prim (PStr ''esp32-01'')), (''reason'', Prim (PStr ''LOW_TRUST'')),
              (''meta'', JObj [(''ok'', Prim (PBool True)), (''note'', Prim PNull)])])
     = ''{\"deviceId\":\"esp32-01\",\"meta\":{\"note\":null,\"ok\":true},\"reason\":\"LOW_TRUST\"}''
   \<and> stableStringify example_builtins
       (JObj [(''meta'', JObj [(''note'', Prim PNull), (''ok'', Prim (PBool True))]),
              (''reason'', Prim (PStr ''LOW_TRUST'')), (''deviceId'', Prim (PStr ''esp32-01''))])
     = ''{\"deviceId\":\"esp32-01\",\"meta\":{\"note\":null,\"ok\":true},\"reason\":\"LOW_TRUST\"}''
   \<and> keccakHash example_builtins example_ethers
       (JObj [(''deviceId'', Prim (PStr ''esp32-01'')), (''reason'', Prim (PStr ''LOW_TRUST'')),
              (''meta'', JObj [(''ok'', Prim (PBool True)), (''note'', Prim PNull)])])
     = keccakHash example_builtins example_ethers
       (JObj [(''meta'', JObj [(''note'', Prim PNull), (''ok'', Prim (PBool True))]),
              (''reason'', Prim (PStr ''LOW_TRUST'')), (''deviceId'', Prim (PStr ''esp32-01''))])"
proof -
  have rel: "same_up_to_key_order
     (JObj [(''deviceId'', Prim (PStr ''esp32-01'')), (''reason'', Prim (PStr ''LOW_TRUST'')),
            (''meta'', JObj [(''ok'', Prim (PBool True)), (''note'', Prim PNull)])])
     (JObj [(''meta'', JObj [(''note'', Prim PNull), (''ok'', Prim (PBool True))]),
            (''reason'', Prim (PStr ''LOW_TRUST'')), (''deviceId'', Prim (PStr ''esp32-01''))])"
    by (auto intro!: same_up_to_key_order.intros split: if_splits)
  have rendered: "stableStringify example_builtins
       (JObj [(''deviceId'', Prim (PStr ''esp32-01'')), (''reason'', Prim (PStr ''LOW_TRUST'')),
              (''meta'', JObj [(''ok'', Prim (PBool True)), (''note'', Prim PNull)])])
     = ''{\"deviceId\":\"esp32-01\",\"meta\":{\"note\":null,\"ok\":true},\"reason\":\"LOW_TRUST\"}''"
    by (simp add: example_builtins_def)
  from canonical_hash_order_independent [OF rel, of example_builtins example_ethers] rel rendered
  show ?thesis by simp
qed

section \<open>Decision rules of systemValidate\<close>

text \<open>
  Claim C5. Whenever the analysis of the merged series reports at least 3 drops over at least
  6 samples, \<open>systemValidate\<close> returns \<open>confirm_unreliable\<close> with reason
  \<open>recurring_drops\<close>, whatever the instability fraction and the slope are.
\<close>

theorem systemValidate_recurring_drops:
  "analyzeSeries (buildTrustSeries local fetched) = Ok a \<Longrightarrow> drops a \<ge> 3 \<Longrightarrow> samples a \<ge> 6 \<Longrightarrow>
     systemValidate globalThis local fetched
       = \<lparr>d_action = confirm_unreliable, d_reason = Some ''recurring_drops'',
          d_analysis = Some (Ok a), d_newThreshold = None, d_error = None\<rparr>"
  by (simp add: systemValidate_def systemValidate_try_def DROP_COUNT_THRESHOLD_def Let_def)

theorem systemValidate_recurring_drops_witness:
  "analyzeSeries (buildTrustSeries
       [local_point ''group-1'' 1 100, local_point ''group-1'' 2 90, local_point ''group-1'' 3 80,
        local_point ''group-1'' 4 70, local_point ''group-1'' 5 60, local_point ''group-1'' 6 50] None)
     = Ok \<lparr>drops = 5, instabilityFrac = 1, slope = - 10, samples = 6\<rparr>
   \<and> drops \<lparr>drops = 5, instabilityFrac = 1, slope = - 10, samples = 6\<rparr> \<ge> 3
   \<and> samples \<lparr>drops = 5, instabilityFrac = 1, slope = - 10, samples = 6\<rparr> \<ge> 6
   \<and> instabilityFrac \<lparr>drops = 5, instabilityFrac = 1, slope = - 10, samples = 6\<rparr> \<ge> INSTABILITY_FRACTION
   \<and> systemValidate Map.empty
       [local_point ''group-1'' 1 100, local_point ''group-1'' 2 90, local_point ''group-1'' 3 80,
        local_point ''group-1'' 4 70, local_point ''group-1'' 5 60, local_point ''group-1'' 6 50] None
     = \<lparr>d_action = confirm_unreliable, d_reason = Some ''recurring_drops'',
        d_analysis = Some (Ok \<lparr>drops = 5, instabilityFrac = 1, slope = - 10, samples = 6\<rparr>),
        d_newThreshold = None, d_error = None\<rparr>"
proof -
  have series: "buildTrustSeries
       [local_point ''group-1'' 1 100, local_point ''group-1'' 2 90, local_point ''group-1'' 3 80,
        local_point ''group-1'' 4 70, local_point ''group-1'' 5 60, local_point ''group-1'' 6 50] None
    = [local_point ''group-1'' 1 100, local_point ''group-1'' 2 90, local_point ''group-1'' 3 80,
        local_point ''group-1'' 4 70, local_point ''group-1'' 5 60, local_point ''group-1'' 6 50]"
    by (simp add: buildTrustSeries_def dedupe_def dedupe_step_def seen_key_def same_group_ts_def
        WINDOW_EVENTS_def local_point_def)
  have ok: "analyzeSeries (buildTrustSeries
       [local_point ''group-1'' 1 100, local_point ''group-1'' 2 90, local_point ''group-1'' 3 80,
        local_point ''group-1'' 4 70, local_point ''group-1'' 5 60, local_point ''group-1'' 6 50] None)
     = Ok \<lparr>drops = 5, instabilityFrac = 1, slope = - 10, samples = 6\<rparr>"
    unfolding series
    by (simp add: analyzeSeries_def point_value_def local_point_def ls_slope_def DROP_DELTA_def
        INSTABILITY_DELTA_def Let_def)
  from systemValidate_recurring_drops [OF ok, of Map.empty] ok
  show ?thesis by (simp add: INSTABILITY_FRACTION_def)
qed

text \<open>
  Claim C1. The claim promises \<open>adjust_threshold_lower\<close> with
  \<open>newThreshold = max(10, threshold - 5)\<close> when rules 1 and 2 do not fire and the slope is
  below -2. The code reads the undeclared name \<open>TRUST_THRESHOLD\<close> there: with no such
  property on the global object the read throws, and \<open>systemValidate\<close> returns
  \<open>validation_error\<close> with the text of the \<open>ReferenceError\<close>.
\<close>

theorem systemValidate_downward_trend_throws:
  assumes ok: "analyzeSeries (buildTrustSeries local fetched) = Ok a"
    and few: "drops a < 3 \<or> samples a < 6"
    and calm: "instabilityFrac a < 0.4"
    and down: "slope a < - 2"
    and unbound: "globalThis ''TRUST_THRESHOLD'' = None"
  shows "systemValidate globalThis local fetched
       = \<lparr>d_action = validation_error, d_reason = None, d_analysis = None, d_newThreshold = None,
          d_error = Some ''TRUST_THRESHOLD is not defined''\<rparr>"
proof -
  have r1: "\<not> (drops a \<ge> DROP_COUNT_THRESHOLD \<and> samples a \<ge> 6)"
    using few by (auto simp: DROP_COUNT_THRESHOLD_def)
  have r2: "\<not> instabilityFrac a \<ge> INSTABILITY_FRACTION"
    using calm by (simp add: INSTABILITY_FRACTION_def)
  have thrown: "TRUST_THRESHOLD globalThis = Inl (ReferenceError ''TRUST_THRESHOLD is not defined'')"
    using unbound by (simp add: TRUST_THRESHOLD_def)
  have "systemValidate_try globalThis local fetched
          = Inl (ReferenceError ''TRUST_THRESHOLD is not defined'')"
    unfolding systemValidate_try_def Let_def ok using r1 r2 down thrown by simp
  then show ?thesis by (simp add: systemValidate_def err_text_def)
qed

theorem systemValidate_downward_trend_throws_witness:
  "analyzeSeries (buildTrustSeries
       [local_point ''group-1'' 1 100, local_point ''group-1'' 2 97, local_point ''group-1'' 3 94,
        local_point ''group-1'' 4 91] None)
     = Ok \<lparr>drops = 0, instabilityFrac = 0, slope = - 3, samples = 4\<rparr>
   \<and> (drops \<lparr>drops = 0, instabilityFrac = 0, slope = - 3, samples = 4\<rparr> < 3
        \<or> samples \<lparr>drops = 0, instabilityFrac = 0, slope = - 3, samples = 4\<rparr> < 6)
   \<and> instabilityFrac \<lparr>drops = 0, instabilityFrac = 0, slope = - 3, samples = 4\<rparr> < 0.4
   \<and> slope \<lparr>drops = 0, instabilityFrac = 0, slope = - 3, samples = 4\<rparr> < - 2
   \<and> (Map.empty :: string \<rightharpoonup> jsnum) ''TRUST_THRESHOLD'' = None
   \<and> systemValidate Map.empty
       [local_point ''group-1'' 1 100, local_point ''group-1'' 2 97, local_point ''group-1'' 3 94,
        local_point ''group-1'' 4 91] None
     = \<lparr>d_action = validation_error, d_reason = None, d_analysis = None, d_newThreshold = None,
        d_error = Some ''TRUST_THRESHOLD is not defined''\<rparr>"
proof -
  have series: "buildTrustSeries
       [local_point ''group-1'' 1 100, local_point ''group-1'' 2 97, local_point ''group-1'' 3 94,
        local_point ''group-1'' 4 91] None
    = [local_point ''group-1'' 1 100, local_point ''group-1'' 2 97, local_point ''group-1'' 3 94,
        local_point ''group-1'' 4 91]"
    by (simp add: buildTrustSeries_def dedupe_def dedupe_step_def seen_key_def same_group_ts_def
        WINDOW_EVENTS_def local_point_def)
  have ok: "analyzeSeries (buildTrustSeries
       [local_point ''group-1'' 1 100, local_point ''group-1'' 2 97, local_point ''group-1'' 3 94,
        local_point ''group-1'' 4 91] None)
     = Ok \<lparr>drops = 0, instabilityFrac = 0, slope = - 3, samples = 4\<rparr>"
    unfolding series
    by (simp add: analyzeSeries_def point_value_def local_point_def ls_slope_def DROP_DELTA_def
        INSTABILITY_DELTA_def Let_def)
  from systemValidate_downward_trend_throws [OF ok, of Map.empty] ok
  show ?thesis by simp
qed

section \<open>The ingestion gateway: credential, local flag, order of effects\<close>

lemma after_validation_no_call:
  "CallSystemValidate g d \<notin> set (fst (snd (snd (after_validation se thr ths v))))"
  by (auto simp: after_validation_def Let_def split: sum.splits option.splits)

lemma enqueueChainLog_no_call:
  "CallSystemValidate g d \<notin> set (fst (enqueueChainLog item st))"
  by (simp add: enqueueChainLog_def)

lemma finish_request_no_call:
  assumes "\<forall>g d. CallSystemValidate g d \<notin> set (fst (snd (snd validated)))"
  shows "CallSystemValidate g d \<notin> set (fst (snd (finish_request bi clk st validated)))"
  using assms by (simp add: finish_request_def Let_def enqueueChainLog_no_call)

lemma received_event_fields:
  "se_localFlagged (received_event bi eth cfg clk st req) = localFlagged bi cfg (thresholds st) (payload_of req)"
  "se_trustA (received_event bi eth cfg clk st req) = trust_score bi (payload_of req) ''trustA''"
  "se_trustB (received_event bi eth cfg clk st req) = trust_score bi (payload_of req) ''trustB''"
  "se_groupId (received_event bi eth cfg clk st req) = groupId_of bi (payload_of req)"
  by (simp_all add: received_event_def Let_def)

lemma post_data_arrival:
  assumes "verifyApiKey cfg (header_api_key req)"
  shows "\<exists>post.
           fst (snd (post_data bi eth cfg clk validation st req))
             = AppendStored Received (received_event bi eth cfg clk st req)
               # EmitEventUpdate Received (received_event bi eth cfg clk st req)
               # EmitTelemetry (telemetry_of clk (received_event bi eth cfg clk st req))
               # CallSystemValidate (se_groupId (received_event bi eth cfg clk st req))
                   (se_deviceId (received_event bi eth cfg clk st req))
               # post
           \<and> (\<forall>g d. CallSystemValidate g d \<notin> set post)"
proof -
  have "\<forall>g d. CallSystemValidate g d \<notin> set (fst (snd (snd
          (after_validation (received_event bi eth cfg clk st req)
             (computeGroupThreshold bi cfg (thresholds st) (se_groupId (received_event bi eth cfg clk st req)))
             (thresholds st) validation))))"
    by (simp add: after_validation_no_call)
  then have "\<forall>g d. CallSystemValidate g d \<notin> set (fst (snd (finish_request bi clk st
          (after_validation (received_event bi eth cfg clk st req)
             (computeGroupThreshold bi cfg (thresholds st) (se_groupId (received_event bi eth cfg clk st req)))
             (thresholds st) validation))))"
    using finish_request_no_call by blast
  then show ?thesis using assms by (simp add: post_data_def Let_def)
qed



lemma example_request_authenticated: "verifyApiKey example_config (header_api_key (example_request (Some ''dhanushharini03080411'') p))"
  by (simp add: verifyApiKey_def header_api_key_def example_request_def example_config_def or_str_def)

lemma example_request_payload: "payload_of (example_request k (JObj kvs)) = JObj kvs"
  by (simp add: payload_of_def example_request_def or_else_def)

lemma example_threshold:
  "g \<notin> set Object_prototype_names \<Longrightarrow>
     computeGroupThreshold example_builtins example_config (thresholds idle_state) g = Num 60"
  by (simp add: computeGroupThreshold_def idle_state_def example_config_def nullish_else_def)






lemma example_deviceId_group:
  "groupId_of example_builtins (JObj [(''deviceId'', Prim (PStr (c # cs)))]) = c # cs"
  by (simp add: groupId_of_def and_String_def or_str_def example_builtins_def)


lemma example_request_rejected: "header_api_key (example_request None p) \<noteq> Some (GATEWAY_API_KEY example_config)"
 "header_api_key (example_request (Some ''guess'') p) \<noteq> Some (GATEWAY_API_KEY example_config)"
  by (simp_all add: header_api_key_def example_request_def example_config_def or_str_def)


text \<open>
  Claim C7. A request whose credential header is missing or differs from the configured key
  is answered with 401 and has no effect at all: nothing is appended, published or enqueued,
  and the module state is unchanged.
\<close>

theorem post_data_rejects_bad_key:
  "header_api_key req \<noteq> Some (GATEWAY_API_KEY cfg) \<Longrightarrow>
     post_data bi eth cfg clk validation st req = (Resp_unauthorized, [], st)"
  by (auto simp: post_data_def verifyApiKey_def split: option.splits)

theorem post_data_rejects_bad_key_witness:
  "header_api_key (example_request None (JObj [(''trustA'', Prim (PNum (Num 10)))]))
     \<noteq> Some (GATEWAY_API_KEY example_config)
   \<and> post_data example_builtins example_ethers example_config example_clock
         (Inl (Error ''unreachable'')) idle_state
         (example_request None (JObj [(''trustA'', Prim (PNum (Num 10)))]))
       = (Resp_unauthorized, [], idle_state)
   \<and> header_api_key (example_request (Some ''guess'') (JObj [(''trustA'', Prim (PNum (Num 10)))]))
     \<noteq> Some (GATEWAY_API_KEY example_config)
   \<and> post_data example_builtins example_ethers example_config example_clock
         (Inl (Error ''unreachable'')) idle_state
         (example_request (Some ''guess'') (JObj [(''trustA'', Prim (PNum (Num 10)))]))
       = (Resp_unauthorized, [], idle_state)"
  using post_data_rejects_bad_key [OF example_request_rejected(1)]
        post_data_rejects_bad_key [OF example_request_rejected(2)]
        example_request_rejected
  by simp

text \<open>
  Claim C8. For every authenticated request, the effects of the handler start with the
  append of the \<open>received\<close> record, its publication as \<open>event_update\<close> and the telemetry
  snapshot; the call of \<open>systemValidate\<close> comes next and is the only one, whatever that call
  returns or throws.
\<close>

theorem post_data_received_before_validation:
  assumes "verifyApiKey cfg (header_api_key req)"
  shows "\<exists>se tm g dv post.
           fst (snd (post_data bi eth cfg clk validation st req))
             = AppendStored Received se # EmitEventUpdate Received se # EmitTelemetry tm
               # CallSystemValidate g dv # post
           \<and> (\<forall>g' d'. CallSystemValidate g' d' \<notin> set post)"
  using post_data_arrival [OF assms, of bi eth clk validation st] by blast

theorem post_data_received_before_validation_witness:
  "verifyApiKey example_config
     (header_api_key (example_request (Some ''dhanushharini03080411'')
        (JObj [(''trustA'', Prim (PNum (Num 55))), (''trustB'', Prim (PNum (Num 90)))])))
   \<and> (\<exists>se tm g dv post.
         fst (snd (post_data example_builtins example_ethers example_config example_clock
                     (Inl (Error ''getLogs failed'')) idle_state
                     (example_request (Some ''dhanushharini03080411'')
                        (JObj [(''trustA'', Prim (PNum (Num 55))), (''trustB'', Prim (PNum (Num 90)))]))))
           = AppendStored Received se # EmitEventUpdate Received se # EmitTelemetry tm
             # CallSystemValidate g dv # post
         \<and> (\<forall>g' d'. CallSystemValidate g' d' \<notin> set post))"
  using post_data_received_before_validation [OF example_request_authenticated]
        example_request_authenticated
  by simp



text \<open>
  Claim C10. In an authenticated request, a score that is present but converts to \<open>NaN\<close>
  compares false against every threshold, and an absent score is 100 and compares false
  against every threshold up to 100. So the \<open>received\<close> record is not locally flagged when
  both scores convert to \<open>NaN\<close>, nor when both are absent and the group threshold is at
  most 100.
\<close>

theorem post_data_non_numeric_scores_not_flagged:
  assumes auth: "verifyApiKey cfg (header_api_key req)"
  shows "(\<forall>k v thr. field (payload_of req) k = Some v \<longrightarrow> js_Number bi v = NaN \<longrightarrow>
              \<not> js_lt (trust_score bi (payload_of req) k) thr)
       \<and> (\<forall>k T. field (payload_of req) k = None \<longrightarrow> T \<le> 100 \<longrightarrow>
              trust_score bi (payload_of req) k = Num 100
              \<and> \<not> js_lt (trust_score bi (payload_of req) k) (Num T))
       \<and> (\<exists>se rest. fst (snd (post_data bi eth cfg clk validation st req)) = AppendStored Received se # rest
             \<and> ((\<exists>va vb. field (payload_of req) ''trustA'' = Some va \<and> js_Number bi va = NaN
                          \<and> field (payload_of req) ''trustB'' = Some vb \<and> js_Number bi vb = NaN)
                    \<longrightarrow> \<not> se_localFlagged se)
             \<and> ((\<exists>T. field (payload_of req) ''trustA'' = None \<and> field (payload_of req) ''trustB'' = None
                        \<and> computeGroupThreshold bi cfg (thresholds st) (groupId_of bi (payload_of req)) = Num T
                        \<and> T \<le> 100)
                    \<longrightarrow> \<not> se_localFlagged se))"
proof (intro conjI allI impI)
  fix k v thr
  assume "field (payload_of req) k = Some v" "js_Number bi v = NaN"
  then show "\<not> js_lt (trust_score bi (payload_of req) k) thr"
    by (simp add: trust_score_def)
next
  fix k and T :: real
  assume "field (payload_of req) k = None" "T \<le> 100"
  then show "trust_score bi (payload_of req) k = Num 100"
    and "\<not> js_lt (trust_score bi (payload_of req) k) (Num T)"
    by (simp_all add: trust_score_def)
next
  obtain post where eff: "fst (snd (post_data bi eth cfg clk validation st req))
             = AppendStored Received (received_event bi eth cfg clk st req) # post"
    using post_data_arrival [OF auth, of bi eth clk validation st] by blast
  have nan: "\<not> se_localFlagged (received_event bi eth cfg clk st req)"
    if "\<exists>va vb. field (payload_of req) ''trustA'' = Some va \<and> js_Number bi va = NaN
                          \<and> field (payload_of req) ''trustB'' = Some vb \<and> js_Number bi vb = NaN"
    using that by (auto simp: received_event_fields localFlagged_def trust_score_def Let_def)
  have absent: "\<not> se_localFlagged (received_event bi eth cfg clk st req)"
    if "\<exists>T. field (payload_of req) ''trustA'' = None \<and> field (payload_of req) ''trustB'' = None
                        \<and> computeGroupThreshold bi cfg (thresholds st) (groupId_of bi (payload_of req)) = Num T
                        \<and> T \<le> 100"
    using that by (auto simp: received_event_fields localFlagged_def trust_score_def Let_def)
  show "\<exists>se rest. fst (snd (post_data bi eth cfg clk validation st req)) = AppendStored Received se # rest
             \<and> ((\<exists>va vb. field (payload_of req) ''trustA'' = Some va \<and> js_Number bi va = NaN
                          \<and> field (payload_of req) ''trustB'' = Some vb \<and> js_Number bi vb = NaN)
                    \<longrightarrow> \<not> se_localFlagged se)
             \<and> ((\<exists>T. field (payload_of req) ''trustA'' = None \<and> field (payload_of req) ''trustB'' = None
                        \<and> computeGroupThreshold bi cfg (thresholds st) (groupId_of bi (payload_of req)) = Num T
                        \<and> T \<le> 100)
                    \<longrightarrow> \<not> se_localFlagged se)"
    using eff nan absent by blast
qed

theorem post_data_non_numeric_scores_not_flagged_witness:
  "verifyApiKey example_config
     (header_api_key (example_request (Some ''dhanushharini03080411'')
        (JObj [(''trustA'', Prim (PStr ''high'')), (''trustB'', Prim (PStr ''n/a''))])))
   \<and> js_Number example_builtins (Prim (PStr ''high'')) = NaN
   \<and> js_Number example_builtins (Prim (PStr ''n/a'')) = NaN
   \<and> (\<exists>se rest.
         fst (snd (post_data example_builtins example_ethers example_config example_clock
                     (Inl (Error ''getLogs failed'')) idle_state
                     (example_request (Some ''dhanushharini03080411'')
                        (JObj [(''trustA'', Prim (PStr ''high'')), (''trustB'', Prim (PStr ''n/a''))]))))
           = AppendStored Received se # rest
         \<and> \<not> se_localFlagged se)
   \<and> (\<exists>se rest.
         fst (snd (post_data example_builtins example_ethers example_config example_clock
                     (Inl (Error ''getLogs failed'')) idle_state
                     (example_request (Some ''dhanushharini03080411'')
                        (JObj [(''deviceId'', Prim (PStr ''esp32-01''))]))))
           = AppendStored Received se # rest
         \<and> \<not> se_localFlagged se)"
proof -
  have nan: "js_Number example_builtins (Prim (PStr ''high'')) = NaN"
    "js_Number example_builtins (Prim (PStr ''n/a'')) = NaN"
    by (simp_all add: example_builtins_def)
  have both_nan: "\<exists>va vb.
      field (payload_of (example_request (Some ''dhanushharini03080411'')
               (JObj [(''trustA'', Prim (PStr ''high'')), (''trustB'', Prim (PStr ''n/a''))]))) ''trustA'' = Some va
      \<and> js_Number example_builtins va = NaN
      \<and> field (payload_of (example_request (Some ''dhanushharini03080411'')
               (JObj [(''trustA'', Prim (PStr ''high'')), (''trustB'', Prim (PStr ''n/a''))]))) ''trustB'' = Some vb
      \<and> js_Number example_builtins vb = NaN"
    using nan by (simp add: example_request_payload)
  have both_absent: "\<exists>T.
      field (payload_of (example_request (Some ''dhanushharini03080411'')
               (JObj [(''deviceId'', Prim (PStr ''esp32-01''))]))) ''trustA'' = None
      \<and> field (payload_of (example_request (Some ''dhanushharini03080411'')
               (JObj [(''deviceId'', Prim (PStr ''esp32-01''))]))) ''trustB'' = None
      \<and> computeGroupThreshold example_builtins example_config (thresholds idle_state)
            (groupId_of example_builtins (payload_of (example_request (Some ''dhanushharini03080411'')
               (JObj [(''deviceId'', Prim (PStr ''esp32-01''))])))) = Num T
      \<and> T \<le> 100"
    by (simp add: example_request_payload example_threshold example_deviceId_group
        Object_prototype_names_def)
  have first: "\<exists>se rest.
         fst (snd (post_data example_builtins example_ethers example_config example_clock
                     (Inl (Error ''getLogs failed'')) idle_state
                     (example_request (Some ''dhanushharini03080411'')
                        (JObj [(''trustA'', Prim (PStr ''high'')), (''trustB'', Prim (PStr ''n/a''))]))))
           = AppendStored Received se # rest
         \<and> \<not> se_localFlagged se"
    using post_data_non_numeric_scores_not_flagged
            [OF example_request_authenticated, where bi = example_builtins
               and eth = example_ethers and clk = example_clock
               and validation = "Inl (Error ''getLogs failed'')" and st = idle_state]
          both_nan
    by blast
  have second: "\<exists>se rest.
         fst (snd (post_data example_builtins example_ethers example_config example_clock
                     (Inl (Error ''getLogs failed'')) idle_state
                     (example_request (Some ''dhanushharini03080411'')
                        (JObj [(''deviceId'', Prim (PStr ''esp32-01''))]))))
           = AppendStored Received se # rest
         \<and> \<not> se_localFlagged se"
    using post_data_non_numeric_scores_not_flagged
            [OF example_request_authenticated, where bi = example_builtins
               and eth = example_ethers and clk = example_clock
               and validation = "Inl (Error ''getLogs failed'')" and st = idle_state]
          both_absent
    by blast
  show ?thesis
    using first second nan example_request_authenticated by simp
qed

section \<open>The ledger adapter never throws\<close>

lemma processAndLog_try_disabled:
  assumes "contract bc = None \<or> wallet bc = None"
  shows "processAndLog_try bi bc now evt
           = (if evt = Prim PNull then (Inl (TypeError ''Cannot read properties of null''), [])
              else case keccakHash bi (ethers bc) evt of
                     Inl e \<Rightarrow> (Inl e, [])
                   | Inr h \<Rightarrow> (Inr \<lparr>res_txHash = None, res_hash = Some h, res_success = False,
                                      res_error = Some ''on-chain disabled'', res_receipt = None\<rparr>, []))"
proof (cases "contract bc")
  case None
  then show ?thesis by (simp add: processAndLog_try_def Let_def split: sum.splits)
next
  case (Some f)
  with assms have "wallet bc = None" by simp
  with Some show ?thesis by (simp add: processAndLog_try_def Let_def split: sum.splits)
qed

lemma processAndLog_cases:
  "processAndLog bi bc now evt_arg
     = (case fst (processAndLog_try bi bc now (default_evt evt_arg)) of
          Inr r \<Rightarrow> (Inr r, snd (processAndLog_try bi bc now (default_evt evt_arg)))
        | Inl err \<Rightarrow>
            (Inr \<lparr>res_txHash = None,
                   res_hash = (case keccakHash bi (ethers bc) (default_evt evt_arg) of
                                 Inr h \<Rightarrow> Some h | Inl e \<Rightarrow> None),
                   res_success = False, res_error = Some (err_text err), res_receipt = None\<rparr>,
             snd (processAndLog_try bi bc now (default_evt evt_arg))))"
  by (cases "processAndLog_try bi bc now (default_evt evt_arg)")
     (simp add: processAndLog_def Let_def split: sum.splits)

lemma example_item_keccakHash:
  "keccakHash example_builtins example_ethers example_item = Inr example_item_hash"
  by (simp add: keccakHash_def example_ethers_def example_item_def example_builtins_def
      example_item_hash_def)

lemma example_item_fields:
  "example_item \<noteq> Prim PNull"
  "field example_item ''groupId'' = Some (Prim (PStr ''group-1''))"
  "field example_item ''oldTS'' = Some (Prim (PNum (Num 55)))"
  "field example_item ''newTS'' = Some (Prim (PNum (Num 90)))"
  "field example_item ''reason'' = Some (Prim (PStr ''LOW_TRUST''))"
  "field example_item ''ts'' = Some (Prim (PNum (Num 1700000000)))"
  "field example_item ''flagged'' = Some (Prim (PBool True))"
  "field example_item ''payload'' = Some (JObj [(''trustA'', Prim (PNum (Num 55))), (''trustB'', Prim (PNum (Num 90)))])"
  by (simp_all add: example_item_def)

lemma failing_chain_try:
  "processAndLog_try example_builtins failing_chain 0 example_item
     = (Inl (Error ''could not detect network''), [LogTrustEvent example_ledger_args])"
  unfolding processAndLog_try_def
  by (simp add: example_item_fields example_item_keccakHash failing_chain_def Let_def
      example_ledger_args_def)




section \<open>The write queue and failed submissions\<close>

lemma processAndLog_returns: "\<exists>r. fst (processAndLog bi bc now evt_arg) = Inr r"
  by (simp add: processAndLog_cases split: sum.splits)

lemma queue_try_never_throws:
  assumes "field item ''payload'' = Some p" "p \<noteq> Prim PNull"
  shows "fst (queue_try bi bc now item) = None"
proof -
  obtain r where "fst (processAndLog bi bc now (Some item)) = Inr r"
    using processAndLog_returns by blast
  then obtain calls where "processAndLog bi bc now (Some item) = (Inr r, calls)"
    by (cases "processAndLog bi bc now (Some item)") simp
  then show ?thesis using assms
    by (auto simp: queue_try_def Let_def split: option.splits prim.splits json.splits)
qed

lemma queue_try_effects:
  assumes "fst (queue_try bi bc now item) = None"
  shows "\<forall>e \<in> set (snd (queue_try bi bc now item)).
           (\<forall>i n. e \<noteq> QueuePush i n) \<and> (\<forall>i r m. e \<noteq> AppendItem Post_chain_failed i r m)
           \<and> (\<forall>ms. e = Sleep ms \<longrightarrow> ms = 500)"
proof -
  obtain r where "fst (processAndLog bi bc now (Some item)) = Inr r"
    using processAndLog_returns by blast
  then obtain calls where "processAndLog bi bc now (Some item) = (Inr r, calls)"
    by (cases "processAndLog bi bc now (Some item)") simp
  then show ?thesis
    by (auto simp: queue_try_def Let_def split: option.splits prim.splits json.splits if_splits)
qed

lemma failing_chain_processAndLog:
  "processAndLog example_builtins failing_chain 0 (Some example_item)
     = (Inr example_failure, [LogTrustEvent example_ledger_args])"
proof -
  have "ethers failing_chain = example_ethers" by (simp add: failing_chain_def)
  then show ?thesis
    by (simp add: processAndLog_def default_evt_def failing_chain_try Let_def
        example_item_keccakHash err_text_def example_failure_def)
qed

lemma failing_chain_queue_try:
  "queue_try example_builtins failing_chain 0 example_item
     = (None, [Ledger (LogTrustEvent example_ledger_args),
               AppendItem Post_chain example_item (Some example_failure) None,
               EmitItemUpdate Final example_item (Some example_failure) None,
               EmitFlaggedEvent example_item None, Sleep 500])"
  by (simp add: queue_try_def failing_chain_processAndLog example_item_fields Let_def
      example_failure_def)

text \<open>
  Claim C2. The claim promises, for an item whose ledger submission fails, a re-enqueue at
  the tail with a backoff wait, and a \<open>post-chain-failed\<close> record after the fourth
  failure. \<open>processAndLog\<close> returns every failure as a value, so the \<open>catch\<close> block of
  \<open>processQueue\<close> that holds the retry is not reached by a failed submission: for every
  ledger, whatever it answers, and every queue of items that carry a payload, the worker
  never re-enqueues, never records \<open>post-chain-failed\<close>, and only ever waits the 500 ms
  that follow a processed item.
\<close>

theorem processQueue_never_retries:
  assumes "\<forall>w \<in> set q. \<exists>p. field (fst w) ''payload'' = Some p \<and> p \<noteq> Prim PNull"
  shows "\<forall>e \<in> set (processQueue bi bc now q).
           (\<forall>i n. e \<noteq> QueuePush i n) \<and> (\<forall>i r m. e \<noteq> AppendItem Post_chain_failed i r m)
           \<and> (\<forall>ms. e = Sleep ms \<longrightarrow> ms = 500)"
  using assms
proof (induction q)
  case Nil
  show ?case by simp
next
  case (Cons w rest)
  obtain item attempts where w: "w = (item, attempts)" by (cases w)
  from Cons.prems w obtain p where p: "field item ''payload'' = Some p" "p \<noteq> Prim PNull" by auto
  have none: "fst (queue_try bi bc now item) = None"
    using queue_try_never_throws [OF p] .
  have step: "processQueue bi bc now (w # rest) = snd (queue_try bi bc now item) @ processQueue bi bc now rest"
    using none w by simp
  have "\<forall>e \<in> set (processQueue bi bc now rest).
           (\<forall>i n. e \<noteq> QueuePush i n) \<and> (\<forall>i r m. e \<noteq> AppendItem Post_chain_failed i r m)
           \<and> (\<forall>ms. e = Sleep ms \<longrightarrow> ms = 500)"
    using Cons.IH Cons.prems by simp
  then show ?case
    unfolding step using queue_try_effects [OF none] by (metis Un_iff set_append)
qed

theorem processQueue_never_retries_witness:
  "(\<exists>p. field example_item ''payload'' = Some p \<and> p \<noteq> Prim PNull)
   \<and> contract failing_chain = Some (\<lambda>args. Inl (Error ''could not detect network''))
   \<and> processQueue example_builtins failing_chain 0 [(example_item, 0)]
       = [Ledger (LogTrustEvent example_ledger_args),
          AppendItem Post_chain example_item (Some example_failure) None,
          EmitItemUpdate Final example_item (Some example_failure) None,
          EmitFlaggedEvent example_item None, Sleep 500]
   \<and> res_success example_failure = False
   \<and> QueuePush example_item 1
       \<notin> set (processQueue example_builtins failing_chain 0 [(example_item, 0)])
   \<and> Sleep 2000 \<notin> set (processQueue example_builtins failing_chain 0 [(example_item, 0)])
   \<and> AppendItem Post_chain_failed example_item None (Some ''could not detect network'')
       \<notin> set (processQueue example_builtins failing_chain 0 [(example_item, 0)])"
proof -
  have payload: "\<exists>p. field example_item ''payload'' = Some p \<and> p \<noteq> Prim PNull"
    by (simp add: example_item_fields)
  then have items: "\<forall>w \<in> set [(example_item, 0 :: nat)].
      \<exists>p. field (fst w) ''payload'' = Some p \<and> p \<noteq> Prim PNull"
    by simp
  have run: "processQueue example_builtins failing_chain 0 [(example_item, 0)]
       = [Ledger (LogTrustEvent example_ledger_args),
          AppendItem Post_chain example_item (Some example_failure) None,
          EmitItemUpdate Final example_item (Some example_failure) None,
          EmitFlaggedEvent example_item None, Sleep 500]"
    by (simp add: failing_chain_queue_try)
  have rejects: "contract failing_chain = Some (\<lambda>args. Inl (Error ''could not detect network''))"
    by (simp add: failing_chain_def)
  have failed: "res_success example_failure = False"
    by (simp add: example_failure_def)
  from processQueue_never_retries [OF items, of example_builtins failing_chain 0]
  have never: "\<forall>e \<in> set (processQueue example_builtins failing_chain 0 [(example_item, 0)]).
         (\<forall>i n. e \<noteq> QueuePush i n) \<and> (\<forall>i r m. e \<noteq> AppendItem Post_chain_failed i r m)
         \<and> (\<forall>ms. e = Sleep ms \<longrightarrow> ms = 500)" .
  have "QueuePush example_item 1
       \<notin> set (processQueue example_builtins failing_chain 0 [(example_item, 0)])"
    using never by blast
  moreover have "Sleep 2000 \<notin> set (processQueue example_builtins failing_chain 0 [(example_item, 0)])"
    using never by fastforce
  moreover have "AppendItem Post_chain_failed example_item None (Some ''could not detect network'')
       \<notin> set (processQueue example_builtins failing_chain 0 [(example_item, 0)])"
    using never by blast
  ultimately show ?thesis using payload run rejects failed by blast
qed

text \<open>
  The retry branch itself, reached when the \<open>try\<close> block throws after the ledger result is
  recorded (here a flagged item without payload, on the unconfigured ledger): three
  re-enqueues with waits of 2, 4 and 8 seconds, and \<open>post-chain-failed\<close> after the fourth
  round.
\<close>

lemma processQueue_retry_branch:
  "processQueue example_builtins disabled_chain 0 [(item_without_payload, 0)]
     = (let res = \<lparr>res_txHash = None, res_hash = Some item_without_payload_hash, res_success = False,
                   res_error = Some ''on-chain disabled'', res_receipt = None\<rparr>;
            round = [AppendItem Post_chain item_without_payload (Some res) None,
                     EmitItemUpdate Final item_without_payload (Some res) None]
        in round @ [QueuePush item_without_payload 1, Sleep 2000]
           @ round @ [QueuePush item_without_payload 2, Sleep 4000]
           @ round @ [QueuePush item_without_payload 3, Sleep 8000]
           @ round @ [AppendItem Post_chain_failed item_without_payload None
                        (Some ''Cannot read properties of undefined''),
                      EmitItemUpdate Post_chain_failed item_without_payload None
                        (Some ''Cannot read properties of undefined'')])"
proof -
  have hash: "keccakHash example_builtins example_ethers item_without_payload = Inr item_without_payload_hash"
    by (simp add: keccakHash_def example_ethers_def item_without_payload_def example_builtins_def
        item_without_payload_hash_def)
  have "item_without_payload \<noteq> Prim PNull" by (simp add: item_without_payload_def)
  then have pal: "processAndLog example_builtins disabled_chain 0 (Some item_without_payload)
      = (Inr \<lparr>res_txHash = None, res_hash = Some item_without_payload_hash, res_success = False,
              res_error = Some ''on-chain disabled'', res_receipt = None\<rparr>, [])"
    using hash
    by (simp add: processAndLog_cases default_evt_def
        processAndLog_try_disabled [of disabled_chain, simplified disabled_chain_def, simplified]
        disabled_chain_def)
  have round: "queue_try example_builtins disabled_chain 0 item_without_payload
      = (Some (TypeError ''Cannot read properties of undefined''),
         [AppendItem Post_chain item_without_payload
            (Some \<lparr>res_txHash = None, res_hash = Some item_without_payload_hash, res_success = False,
                   res_error = Some ''on-chain disabled'', res_receipt = None\<rparr>) None,
          EmitItemUpdate Final item_without_payload
            (Some \<lparr>res_txHash = None, res_hash = Some item_without_payload_hash, res_success = False,
                   res_error = Some ''on-chain disabled'', res_receipt = None\<rparr>) None])"
    unfolding queue_try_def pal by (simp add: item_without_payload_def)
  show ?thesis
    by (simp add: round maxAttempts_def err_text_def Let_def)
qed

end
